theory Spec2Isabelle
  imports Complex_Main "HOL-Library.Multiset"
begin

section \<open>JavaScript values and the coercions the user service relies on\<close>

text \<open>
  The service in \<^verbatim>\<open>src/services/userService.js\<close> receives two kinds of input: the route
  segment \<^verbatim>\<open>req.params.id\<close>, which is always a string, and the parsed JSON body, an object
  whose properties are JSON scalars (numbers: the integers). Nested objects and arrays are
  not modelled. A string is a list of code units below 256; \<^verbatim>\<open>undefined\<close> is what reading
  an absent property yields; \<open>JDate\<close> is a \<^verbatim>\<open>Date\<close> object, given by its epoch milliseconds.
\<close>

datatype js_value =
    JUndefined
  | JNull
  | JBool bool
  | JNum int
  | JStr string
  | JDate nat

type_synonym js_object = "(string \<times> js_value) list"

text \<open>Property access \<^verbatim>\<open>obj.k\<close>: the value stored under the key, \<^verbatim>\<open>undefined\<close> when absent.\<close>

definition get_prop :: "js_object \<Rightarrow> string \<Rightarrow> js_value" where
  "get_prop obj k = (case map_of obj k of None \<Rightarrow> JUndefined | Some v \<Rightarrow> v)"

text \<open>\<^verbatim>\<open>ToBoolean\<close>: what \<^verbatim>\<open>!v\<close>, \<^verbatim>\<open>v || d\<close> and \<^verbatim>\<open>if (v)\<close> test.\<close>

fun truthy :: "js_value \<Rightarrow> bool" where
  "truthy JUndefined = False"
| "truthy JNull = False"
| "truthy (JBool b) = b"
| "truthy (JNum n) = (n \<noteq> 0)"
| "truthy (JStr s) = (s \<noteq> [])"
| "truthy (JDate t) = True"

text \<open>The operator \<^verbatim>\<open>a || b\<close>.\<close>

definition js_or :: "js_value \<Rightarrow> js_value \<Rightarrow> js_value" where
  "js_or a b = (if truthy a then a else b)"

subsection \<open>Numbers read from strings\<close>

text \<open>
  A number is kept by its exact value. Of the IEEE rounding that \<^verbatim>\<open>Number(s)\<close> performs,
  only the underflow to zero is modelled (a magnitude of at most \<open>2 ^ -1075\<close> becomes 0),
  because it is the one rounding that changes the outcome of the comparison with 0 made by
  the service; \<^verbatim>\<open>NaN\<close> and the two infinities are values of their own.
\<close>

datatype jsnum = NaN | Num rat | PosInfinity | NegInfinity

definition is_ws :: "char \<Rightarrow> bool" where
  "is_ws c = ((of_char c :: nat) \<in> {9, 10, 11, 12, 13, 32, 160})"

definition trim :: "string \<Rightarrow> string" where
  "trim s = rev (dropWhile is_ws (rev (dropWhile is_ws s)))"

definition digit_val :: "char \<Rightarrow> nat option" where
  "digit_val c =
     (let n = (of_char c :: nat) in
      if 48 \<le> n \<and> n \<le> 57 then Some (n - 48)
      else if 97 \<le> n \<and> n \<le> 102 then Some (n - 87)
      else if 65 \<le> n \<and> n \<le> 70 then Some (n - 55)
      else None)"

definition is_digit :: "nat \<Rightarrow> char \<Rightarrow> bool" where
  "is_digit radix c = (case digit_val c of None \<Rightarrow> False | Some d \<Rightarrow> d < radix)"

definition digits_val :: "nat \<Rightarrow> string \<Rightarrow> nat" where
  "digits_val radix ds =
     foldl (\<lambda>acc c. acc * radix + (case digit_val c of None \<Rightarrow> 0 | Some d \<Rightarrow> d)) 0 ds"

text \<open>\<^verbatim>\<open>ExponentPart\<close>, optional: \<^verbatim>\<open>e\<close> or \<^verbatim>\<open>E\<close>, an optional sign, at least one digit.\<close>

definition exponent_part :: "string \<Rightarrow> int option" where
  "exponent_part s =
     (case s of
        [] \<Rightarrow> Some 0
      | c # t \<Rightarrow>
          if c = CHR ''e'' \<or> c = CHR ''E'' then
            (let neg = (t \<noteq> [] \<and> hd t = CHR ''-'');
                 ds = (if t \<noteq> [] \<and> (hd t = CHR ''-'' \<or> hd t = CHR ''+'') then tl t else t)
             in if ds \<noteq> [] \<and> list_all (is_digit 10) ds
                then Some (if neg then - int (digits_val 10 ds) else int (digits_val 10 ds))
                else None)
          else None)"

definition underflow :: "rat \<Rightarrow> rat" where
  "underflow r = (if \<bar>r\<bar> \<le> 1 / 2 ^ 1075 then 0 else r)"

definition scale10 :: "nat \<Rightarrow> int \<Rightarrow> rat" where
  "scale10 m e = (if 0 \<le> e then of_nat m * 10 ^ nat e else of_nat m / 10 ^ nat (- e))"

text \<open>\<^verbatim>\<open>StrUnsignedDecimalLiteral\<close>: \<^verbatim>\<open>Infinity\<close>, or digits with an optional fraction and exponent.\<close>

definition unsigned_decimal :: "string \<Rightarrow> jsnum" where
  "unsigned_decimal s =
     (if s = ''Infinity'' then PosInfinity
      else
        let ip = takeWhile (is_digit 10) s;
            r1 = dropWhile (is_digit 10) s;
            dot = (r1 \<noteq> [] \<and> hd r1 = CHR ''.'');
            fp = (if dot then takeWhile (is_digit 10) (tl r1) else []);
            r2 = (if dot then dropWhile (is_digit 10) (tl r1) else r1)
        in if ip = [] \<and> fp = [] then NaN
           else (case exponent_part r2 of
                   None \<Rightarrow> NaN
                 | Some e \<Rightarrow> Num (underflow (scale10 (digits_val 10 (ip @ fp)) (e - int (length fp))))))"

definition negate :: "jsnum \<Rightarrow> jsnum" where
  "negate x = (case x of NaN \<Rightarrow> NaN | Num r \<Rightarrow> Num (- r)
               | PosInfinity \<Rightarrow> NegInfinity | NegInfinity \<Rightarrow> PosInfinity)"

text \<open>\<^verbatim>\<open>NonDecimalIntegerLiteral\<close>: the radix announced by a prefix \<^verbatim>\<open>0x\<close>, \<^verbatim>\<open>0o\<close> or \<^verbatim>\<open>0b\<close>.\<close>

definition prefix_radix :: "string \<Rightarrow> nat option" where
  "prefix_radix s =
     (case s of
        a # b # t \<Rightarrow>
          if a \<noteq> CHR ''0'' then None
          else if b = CHR ''x'' \<or> b = CHR ''X'' then Some 16
          else if b = CHR ''o'' \<or> b = CHR ''O'' then Some 8
          else if b = CHR ''b'' \<or> b = CHR ''B'' then Some 2
          else None
      | _ \<Rightarrow> None)"

text \<open>\<^verbatim>\<open>ToNumber\<close> applied to a string (\<^verbatim>\<open>StringToNumber\<close>).\<close>

definition to_number :: "string \<Rightarrow> jsnum" where
  "to_number s =
     (let t = trim s in
      if t = [] then Num 0
      else (case prefix_radix t of
              Some radix \<Rightarrow>
                (let ds = drop 2 t in
                 if ds \<noteq> [] \<and> list_all (is_digit radix) ds then Num (of_nat (digits_val radix ds))
                 else NaN)
            | None \<Rightarrow>
                if hd t = CHR ''-'' then negate (unsigned_decimal (tl t))
                else if hd t = CHR ''+'' then unsigned_decimal (tl t)
                else unsigned_decimal t))"

text \<open>\<^verbatim>\<open>isNaN(s)\<close> and \<^verbatim>\<open>s <= 0\<close> for a string \<open>s\<close>: both convert with \<^verbatim>\<open>ToNumber\<close> first.\<close>

definition isNaN :: "string \<Rightarrow> bool" where
  "isNaN s = (to_number s = NaN)"

definition le_zero :: "string \<Rightarrow> bool" where
  "le_zero s = (case to_number s of NaN \<Rightarrow> False | Num r \<Rightarrow> r \<le> 0
                | PosInfinity \<Rightarrow> False | NegInfinity \<Rightarrow> True)"

text \<open>
  \<^verbatim>\<open>parseInt(s)\<close> with no radix: leading white space is skipped, a sign and a prefix
  \<^verbatim>\<open>0x\<close> are honoured, the longest run of digits is read and the rest ignored; \<open>None\<close>
  stands for \<^verbatim>\<open>NaN\<close>.
\<close>

definition parseInt :: "string \<Rightarrow> int option" where
  "parseInt s =
     (let s0 = dropWhile is_ws s;
          neg = (s0 \<noteq> [] \<and> hd s0 = CHR ''-'');
          s1 = (if s0 \<noteq> [] \<and> (hd s0 = CHR ''-'' \<or> hd s0 = CHR ''+'') then tl s0 else s0);
          hex = (prefix_radix s1 = Some 16);
          radix = (if hex then 16 else 10);
          z = takeWhile (is_digit radix) (if hex then drop 2 s1 else s1)
      in if z = [] then None
         else Some (if neg then - int (digits_val radix z) else int (digits_val radix z)))"

text \<open>\<^verbatim>\<open>String(n)\<close> for a natural number: its decimal digits.\<close>

fun dec :: "nat \<Rightarrow> string" where
  "dec n = (if n < 10 then [char_of (48 + n)] else dec (n div 10) @ [char_of (48 + n mod 10)])"

declare dec.simps [simp del]

section \<open>The users table and the persistence gateway\<close>

text \<open>
  The table of \<^verbatim>\<open>prisma/migrations/20251019150416_init_user_model/migration.sql\<close>:
  \<^verbatim>\<open>id SERIAL\<close> (a 32-bit key drawn from a sequence), the \<^verbatim>\<open>TEXT NOT NULL\<close> columns
  \<^verbatim>\<open>nome\<close>, \<^verbatim>\<open>email\<close>, \<^verbatim>\<open>senha\<close> and \<^verbatim>\<open>papel\<close> (default \<^verbatim>\<open>'PROFESSOR'\<close>), the
  nullable \<^verbatim>\<open>foto\<close>, the two timestamps, and a unique index on \<^verbatim>\<open>email\<close>. The rows are
  kept in insertion order; \<open>id_seq\<close> is the last value the sequence handed out.
\<close>

record user_row =
  user_id :: int
  nome :: string
  email :: string
  senha :: string
  foto :: "string option"
  papel :: string
  createdAt :: nat
  updatedAt :: nat

record database =
  users :: "user_row list"
  id_seq :: int

datatype error =
    InvalidInput
  | MissingFields
  | DuplicateEmail
  | NotFound
  | EmailInUse
  | Unexpected

text \<open>
  The errors are the messages the service throws, in the order above: "ID invalido. Deve
  ser um numero positivo", "Nome, email e senha sao obrigatorios", "Email ja cadastrado no
  sistema", "Usuario com ID ... nao encontrado", "Email ja esta em uso por outro usuario";
  \<open>Unexpected\<close> is any exception of the database client.
\<close>

text \<open>The object the client builds from a row, and the \<^verbatim>\<open>select\<close> option of a query.\<close>

definition row_obj :: "user_row \<Rightarrow> js_object" where
  "row_obj r =
     [(''id'', JNum (user_id r)),
      (''nome'', JStr (nome r)),
      (''email'', JStr (email r)),
      (''senha'', JStr (senha r)),
      (''foto'', (case foto r of None \<Rightarrow> JNull | Some p \<Rightarrow> JStr p)),
      (''papel'', JStr (papel r)),
      (''createdAt'', JDate (createdAt r)),
      (''updatedAt'', JDate (updatedAt r))]"

definition select :: "string list \<Rightarrow> js_object \<Rightarrow> js_object" where
  "select sel obj = filter (\<lambda>kv. fst kv \<in> set sel) obj"

definition all_fields :: "string list" where
  "all_fields = [''id'', ''nome'', ''email'', ''senha'', ''foto'', ''papel'', ''createdAt'', ''updatedAt'']"

text \<open>
  Modelled from the spec: the database client (Prisma) and its schema file are not part of
  the sources. Section 2 of the specification names its operations (unique lookup, find
  all, find by id, insert, partial update, delete), section 3 says that \<^verbatim>\<open>createdAt\<close> is
  set at creation and \<^verbatim>\<open>updatedAt\<close> at creation and by an update, and the migration fixes
  the column types. The client sets \<^verbatim>\<open>updatedAt\<close> as part of the write it issues: an update
  whose data object names no column writes nothing and leaves the row as it is,
  \<^verbatim>\<open>updatedAt\<close> included. An argument that does not fit its column (a key that is not a
  32-bit integer, a value that is not text, text missing for a required column) makes the
  client throw, and so does a violation of the unique index.
\<close>

datatype 'a arg = Rejected | Omitted | Given 'a

definition text_arg :: "js_value \<Rightarrow> string arg" where
  "text_arg v = (case v of JUndefined \<Rightarrow> Omitted | JStr s \<Rightarrow> Given s | _ \<Rightarrow> Rejected)"

definition nullable_text_arg :: "js_value \<Rightarrow> string option arg" where
  "nullable_text_arg v =
     (case v of JUndefined \<Rightarrow> Omitted | JNull \<Rightarrow> Given None | JStr s \<Rightarrow> Given (Some s)
      | _ \<Rightarrow> Rejected)"

definition given_or :: "'a arg \<Rightarrow> 'a \<Rightarrow> 'a" where
  "given_or a d = (case a of Given x \<Rightarrow> x | _ \<Rightarrow> d)"

definition id_key :: "int option \<Rightarrow> int option" where
  "id_key k =
     (case k of
        None \<Rightarrow> None
      | Some n \<Rightarrow> if - 2147483648 \<le> n \<and> n \<le> 2147483647 then Some n else None)"

definition findMany :: "database \<Rightarrow> string list \<Rightarrow> js_object list" where
  \<comment> \<open>with \<^verbatim>\<open>orderBy: { createdAt: 'desc' }\<close>\<close>
  "findMany db sel = map (\<lambda>r. select sel (row_obj r)) (rev (sort_key createdAt (users db)))"

definition findUnique_id :: "database \<Rightarrow> int option \<Rightarrow> string list \<Rightarrow> error + js_object option" where
  "findUnique_id db k sel =
     (case id_key k of
        None \<Rightarrow> Inl Unexpected
      | Some i \<Rightarrow> Inr (map_option (\<lambda>r. select sel (row_obj r)) (find (\<lambda>r. user_id r = i) (users db))))"

definition findUnique_email :: "database \<Rightarrow> js_value \<Rightarrow> error + js_object option" where
  "findUnique_email db v =
     (case v of
        JStr e \<Rightarrow> Inr (map_option (\<lambda>r. select all_fields (row_obj r)) (find (\<lambda>r. email r = e) (users db)))
      | _ \<Rightarrow> Inl Unexpected)"

definition new_row :: "int \<Rightarrow> nat \<Rightarrow> js_object \<Rightarrow> user_row option" where
  "new_row i now data =
     (case text_arg (get_prop data ''nome'') of
        Given n \<Rightarrow>
          (case text_arg (get_prop data ''email'') of
             Given e \<Rightarrow>
               (case text_arg (get_prop data ''senha'') of
                  Given s \<Rightarrow>
                    if text_arg (get_prop data ''papel'') = Rejected
                       \<or> nullable_text_arg (get_prop data ''foto'') = Rejected
                    then None
                    else Some \<lparr>user_id = i, nome = n, email = e, senha = s,
                               foto = given_or (nullable_text_arg (get_prop data ''foto'')) None,
                               papel = given_or (text_arg (get_prop data ''papel'')) ''PROFESSOR'',
                               createdAt = now, updatedAt = now\<rparr>
                | _ \<Rightarrow> None)
           | _ \<Rightarrow> None)
      | _ \<Rightarrow> None)"

definition prisma_create ::
  "database \<Rightarrow> nat \<Rightarrow> js_object \<Rightarrow> string list \<Rightarrow> database \<times> (error + js_object)" where
  "prisma_create db now data sel =
     (case new_row (id_seq db + 1) now data of
        None \<Rightarrow> (db, Inl Unexpected)
      | Some row \<Rightarrow>
          if 2147483647 < id_seq db + 1 then (db, Inl Unexpected)
          else if email row \<in> email ` set (users db)
          then (db\<lparr>id_seq := id_seq db + 1\<rparr>, Inl Unexpected)
          else (db\<lparr>users := users db @ [row], id_seq := id_seq db + 1\<rparr>,
                Inr (select sel (row_obj row))))"

definition apply_update :: "nat \<Rightarrow> js_object \<Rightarrow> user_row \<Rightarrow> user_row option" where
  "apply_update now data r =
     (if text_arg (get_prop data ''nome'') = Rejected
         \<or> text_arg (get_prop data ''email'') = Rejected
         \<or> text_arg (get_prop data ''senha'') = Rejected
         \<or> text_arg (get_prop data ''papel'') = Rejected
         \<or> nullable_text_arg (get_prop data ''foto'') = Rejected
      then None
      else if text_arg (get_prop data ''nome'') = Omitted
         \<and> text_arg (get_prop data ''email'') = Omitted
         \<and> text_arg (get_prop data ''senha'') = Omitted
         \<and> text_arg (get_prop data ''papel'') = Omitted
         \<and> nullable_text_arg (get_prop data ''foto'') = Omitted
      then Some r
      else Some (r\<lparr>nome := given_or (text_arg (get_prop data ''nome'')) (nome r),
                   email := given_or (text_arg (get_prop data ''email'')) (email r),
                   senha := given_or (text_arg (get_prop data ''senha'')) (senha r),
                   papel := given_or (text_arg (get_prop data ''papel'')) (papel r),
                   foto := given_or (nullable_text_arg (get_prop data ''foto'')) (foto r),
                   updatedAt := now\<rparr>))"

definition prisma_update ::
  "database \<Rightarrow> nat \<Rightarrow> int option \<Rightarrow> js_object \<Rightarrow> string list \<Rightarrow> database \<times> (error + js_object)" where
  "prisma_update db now k data sel =
     (case id_key k of
        None \<Rightarrow> (db, Inl Unexpected)
      | Some i \<Rightarrow>
          (case find (\<lambda>r. user_id r = i) (users db) of
             None \<Rightarrow> (db, Inl Unexpected)
           | Some r \<Rightarrow>
               (case apply_update now data r of
                  None \<Rightarrow> (db, Inl Unexpected)
                | Some r' \<Rightarrow>
                    if email r' \<in> email ` set (filter (\<lambda>x. user_id x \<noteq> i) (users db))
                    then (db, Inl Unexpected)
                    else (db\<lparr>users := map (\<lambda>x. if user_id x = i then r' else x) (users db)\<rparr>,
                          Inr (select sel (row_obj r'))))))"

definition prisma_delete :: "database \<Rightarrow> int option \<Rightarrow> database \<times> (error + unit)" where
  "prisma_delete db k =
     (case id_key k of
        None \<Rightarrow> (db, Inl Unexpected)
      | Some i \<Rightarrow>
          if find (\<lambda>r. user_id r = i) (users db) = None then (db, Inl Unexpected)
          else (db\<lparr>users := filter (\<lambda>x. user_id x \<noteq> i) (users db)\<rparr>, Inr ()))"

section \<open>The user service\<close>

text \<open>
  Each function of \<^verbatim>\<open>src/services/userService.js\<close>, with the database passed in and, where
  the function writes, passed out with the outcome; \<open>now\<close> is the clock of the write. A
  thrown error is the left summand.
\<close>

definition public_fields :: "string list" where
  "public_fields = [''id'', ''nome'', ''email'', ''papel'', ''foto'', ''createdAt'']"

definition getAllUsers :: "database \<Rightarrow> js_object list" where
  "getAllUsers db = findMany db public_fields"

text \<open>The guard \<^verbatim>\<open>!userId || isNaN(userId) || userId <= 0\<close> on a route segment.\<close>

definition invalid_id :: "string \<Rightarrow> bool" where
  "invalid_id userId = (\<not> truthy (JStr userId) \<or> isNaN userId \<or> le_zero userId)"

definition getUserById :: "database \<Rightarrow> string \<Rightarrow> error + js_object option" where
  "getUserById db userId =
     (if invalid_id userId then Inl InvalidInput
      else findUnique_id db (parseInt userId) public_fields)"

definition emailExists :: "database \<Rightarrow> js_value \<Rightarrow> error + bool" where
  "emailExists db e =
     (case findUnique_email db e of Inl err \<Rightarrow> Inl err | Inr usuario \<Rightarrow> Inr (usuario \<noteq> None))"

definition validateUserData :: "js_object \<Rightarrow> error + unit" where
  "validateUserData userData =
     (if \<not> truthy (get_prop userData ''nome'') \<or> \<not> truthy (get_prop userData ''email'')
         \<or> \<not> truthy (get_prop userData ''senha'')
      then Inl MissingFields else Inr ())"

definition createUser :: "database \<Rightarrow> nat \<Rightarrow> js_object \<Rightarrow> database \<times> (error + js_object)" where
  "createUser db now userData =
     (case validateUserData userData of
        Inl err \<Rightarrow> (db, Inl err)
      | Inr _ \<Rightarrow>
          (case emailExists db (get_prop userData ''email'') of
             Inl err \<Rightarrow> (db, Inl err)
           | Inr emailJaExiste \<Rightarrow>
               if emailJaExiste then (db, Inl DuplicateEmail)
               else prisma_create db now
                      [(''nome'', get_prop userData ''nome''),
                       (''email'', get_prop userData ''email''),
                       (''senha'', get_prop userData ''senha''),
                       (''papel'', js_or (get_prop userData ''papel'') (JStr ''PROFESSOR'')),
                       (''foto'', js_or (get_prop userData ''foto'') JNull)]
                      public_fields))"

text \<open>The object \<^verbatim>\<open>dadosAtualizacao\<close> that \<^verbatim>\<open>updateUser\<close> fills from the payload.\<close>

definition dadosAtualizacao :: "js_object \<Rightarrow> js_object" where
  "dadosAtualizacao userData =
     (if truthy (get_prop userData ''nome'') then [(''nome'', get_prop userData ''nome'')] else [])
     @ (if truthy (get_prop userData ''email'') then [(''email'', get_prop userData ''email'')] else [])
     @ (if truthy (get_prop userData ''senha'') then [(''senha'', get_prop userData ''senha'')] else [])
     @ (if truthy (get_prop userData ''papel'') then [(''papel'', get_prop userData ''papel'')] else [])
     @ (if get_prop userData ''foto'' \<noteq> JUndefined then [(''foto'', get_prop userData ''foto'')] else [])"

definition updateUser ::
  "database \<Rightarrow> nat \<Rightarrow> string \<Rightarrow> js_object \<Rightarrow> database \<times> (error + js_object)" where
  "updateUser db now userId userData =
     (if invalid_id userId then (db, Inl InvalidInput)
      else
        (case findUnique_id db (parseInt userId) all_fields of
           Inl err \<Rightarrow> (db, Inl err)
         | Inr None \<Rightarrow> (db, Inl NotFound)
         | Inr (Some usuarioExistente) \<Rightarrow>
             (case (if truthy (get_prop userData ''email'')
                       \<and> get_prop userData ''email'' \<noteq> get_prop usuarioExistente ''email''
                    then emailExists db (get_prop userData ''email'')
                    else Inr False) of
                Inl err \<Rightarrow> (db, Inl err)
              | Inr emailJaExiste \<Rightarrow>
                  if emailJaExiste then (db, Inl EmailInUse)
                  else prisma_update db now (parseInt userId) (dadosAtualizacao userData)
                         (public_fields @ [''updatedAt'']))))"

definition deleteUser :: "database \<Rightarrow> string \<Rightarrow> database \<times> (error + js_object)" where
  "deleteUser db userId =
     (if invalid_id userId then (db, Inl InvalidInput)
      else
        (case findUnique_id db (parseInt userId) [''id'', ''nome'', ''email''] of
           Inl err \<Rightarrow> (db, Inl err)
         | Inr None \<Rightarrow> (db, Inl NotFound)
         | Inr (Some usuarioExistente) \<Rightarrow>
             (case prisma_delete db (parseInt userId) of
                (db', Inl err) \<Rightarrow> (db', Inl err)
              | (db', Inr _) \<Rightarrow> (db', Inr usuarioExistente))))"

subsection \<open>The controller of \<^verbatim>\<open>GET /users/:id\<close>\<close>

text \<open>
  \<^verbatim>\<open>getById\<close> of \<^verbatim>\<open>src/controllers/userController.js\<close>: 404 for the \<^verbatim>\<open>null\<close> the service
  returns, 400 for the error whose message contains "invalido", 500 for any other error.
\<close>

record response =
  status :: nat
  success :: bool
  data :: "js_object option"

definition getById :: "database \<Rightarrow> string \<Rightarrow> response" where
  "getById db ident =
     (case getUserById db ident of
        Inr None \<Rightarrow> \<lparr>status = 404, success = False, data = None\<rparr>
      | Inr (Some usuario) \<Rightarrow> \<lparr>status = 200, success = True, data = Some usuario\<rparr>
      | Inl err \<Rightarrow>
          if err = InvalidInput then \<lparr>status = 400, success = False, data = None\<rparr>
          else \<lparr>status = 500, success = False, data = None\<rparr>)"

section \<open>Tables the service can reach, and sample data\<close>

text \<open>
  The constraints the table keeps: the primary key and the unique index, keys drawn from
  the sequence (positive, never beyond its last value, which fits 32 bits), and no empty
  email. The empty table satisfies them and every operation of the service preserves them
  (lemmas \<open>table_ok_createUser\<close>, \<open>table_ok_updateUser\<close>, \<open>table_ok_deleteUser\<close>).
\<close>

definition table_ok :: "database \<Rightarrow> bool" where
  "table_ok db \<longleftrightarrow>
     distinct (map user_id (users db)) \<and> distinct (map email (users db))
     \<and> (\<forall>r\<in>set (users db). 0 < user_id r \<and> user_id r \<le> id_seq db \<and> email r \<noteq> [])
     \<and> 0 \<le> id_seq db \<and> id_seq db \<le> 2147483647"

text \<open>The empty table, and a table of two users to evaluate the service on.\<close>

definition empty_db :: database where
  "empty_db = \<lparr>users = [], id_seq = 0\<rparr>"

definition ana :: user_row where
  "ana = \<lparr>user_id = 1, nome = ''Ana'', email = ''ana@x.com'', senha = ''secret1'',
          foto = None, papel = ''PROFESSOR'', createdAt = 10, updatedAt = 10\<rparr>"

definition bia :: user_row where
  "bia = \<lparr>user_id = 2, nome = ''Bia'', email = ''bia@x.com'', senha = ''secret2'',
          foto = Some ''b.png'', papel = ''ADMIN'', createdAt = 20, updatedAt = 20\<rparr>"

definition two_users :: database where
  "two_users = \<lparr>users = [ana, bia], id_seq = 2\<rparr>"

text \<open>The tables that a sequence of service calls builds from the empty table.\<close>

inductive reachable :: "database \<Rightarrow> bool" where
  start: "reachable empty_db"
| create: "reachable db \<Longrightarrow> reachable (fst (createUser db now userData))"
| update: "reachable db \<Longrightarrow> reachable (fst (updateUser db now userId userData))"
| delete: "reachable db \<Longrightarrow> reachable (fst (deleteUser db userId))"

text \<open>
  Names for what the lemmas below state: text values, the payloads whose values fit the
  columns, the row \<^verbatim>\<open>createUser\<close> inserts and the row \<^verbatim>\<open>updateUser\<close> writes back.
\<close>

definition is_text :: "js_value \<Rightarrow> bool" where
  "is_text v = (case v of JStr s \<Rightarrow> True | _ \<Rightarrow> False)"

definition text_of :: "js_value \<Rightarrow> string" where
  "text_of v = (case v of JStr s \<Rightarrow> s | _ \<Rightarrow> [])"

definition creatable :: "js_object \<Rightarrow> bool" where
  "creatable d \<longleftrightarrow>
     is_text (get_prop d ''nome'') \<and> is_text (get_prop d ''email'') \<and> is_text (get_prop d ''senha'')
     \<and> (truthy (get_prop d ''papel'') \<longrightarrow> is_text (get_prop d ''papel''))
     \<and> (truthy (get_prop d ''foto'') \<longrightarrow> is_text (get_prop d ''foto''))"

definition inserted_row :: "database \<Rightarrow> nat \<Rightarrow> js_object \<Rightarrow> user_row" where
  "inserted_row db now d =
     \<lparr>user_id = id_seq db + 1,
      nome = text_of (get_prop d ''nome''),
      email = text_of (get_prop d ''email''),
      senha = text_of (get_prop d ''senha''),
      foto = (if truthy (get_prop d ''foto'') then Some (text_of (get_prop d ''foto'')) else None),
      papel = (if truthy (get_prop d ''papel'') then text_of (get_prop d ''papel'') else ''PROFESSOR''),
      createdAt = now, updatedAt = now\<rparr>"

definition updatable :: "js_object \<Rightarrow> bool" where
  "updatable d \<longleftrightarrow>
     (truthy (get_prop d ''nome'') \<longrightarrow> is_text (get_prop d ''nome''))
     \<and> (truthy (get_prop d ''email'') \<longrightarrow> is_text (get_prop d ''email''))
     \<and> (truthy (get_prop d ''senha'') \<longrightarrow> is_text (get_prop d ''senha''))
     \<and> (truthy (get_prop d ''papel'') \<longrightarrow> is_text (get_prop d ''papel''))
     \<and> (get_prop d ''foto'' = JUndefined \<or> get_prop d ''foto'' = JNull \<or> is_text (get_prop d ''foto''))"

definition merged_row :: "nat \<Rightarrow> js_object \<Rightarrow> user_row \<Rightarrow> user_row" where
  "merged_row now d r =
     r\<lparr>nome := (if truthy (get_prop d ''nome'') then text_of (get_prop d ''nome'') else nome r),
       email := (if truthy (get_prop d ''email'') then text_of (get_prop d ''email'') else email r),
       senha := (if truthy (get_prop d ''senha'') then text_of (get_prop d ''senha'') else senha r),
       papel := (if truthy (get_prop d ''papel'') then text_of (get_prop d ''papel'') else papel r),
       foto := (if get_prop d ''foto'' = JUndefined then foto r
                else if is_text (get_prop d ''foto'') then Some (text_of (get_prop d ''foto''))
                else None),
       updatedAt := (if dadosAtualizacao d = [] then updatedAt r else now)\<rparr>"

text \<open>
  The response shape of a user, \<^verbatim>\<open>{id, nome, email, foto, papel, createdAt}\<close>, the creation
  time an object carries, an object with one property removed, and the route segments that
  denote a positive number.
\<close>

definition public_view :: "user_row \<Rightarrow> js_object" where
  "public_view r =
     [(''id'', JNum (user_id r)),
      (''nome'', JStr (nome r)),
      (''email'', JStr (email r)),
      (''foto'', (case foto r of None \<Rightarrow> JNull | Some p \<Rightarrow> JStr p)),
      (''papel'', JStr (papel r)),
      (''createdAt'', JDate (createdAt r))]"

definition created_of :: "js_object \<Rightarrow> nat" where
  "created_of obj = (case get_prop obj ''createdAt'' of JDate t \<Rightarrow> t | _ \<Rightarrow> 0)"

definition without_key :: "string \<Rightarrow> js_object \<Rightarrow> js_object" where
  "without_key k obj = filter (\<lambda>kv. fst kv \<noteq> k) obj"

definition positive_number :: "string \<Rightarrow> bool" where
  "positive_number s =
     (case to_number s of NaN \<Rightarrow> False | Num r \<Rightarrow> 0 < r | PosInfinity \<Rightarrow> True
      | NegInfinity \<Rightarrow> False)"

text \<open>The values that count as missing for a required field: absent, or an empty JSON value.\<close>

definition absent_or_empty :: "js_value \<Rightarrow> bool" where
  "absent_or_empty v =
     (v = JUndefined \<or> v = JNull \<or> v = JStr [] \<or> v = JNum 0 \<or> v = JBool False)"

definition roles_in_enum :: "database \<Rightarrow> bool" where
  "roles_in_enum db = list_all (\<lambda>r. papel r = ''ADMIN'' \<or> papel r = ''PROFESSOR'') (users db)"

text \<open>The keys of an object.\<close>

definition keys :: "js_object \<Rightarrow> string set" where
  "keys obj = fst ` set obj"

section \<open>Decimal route segments\<close>

lemma is_digit10_iff: "is_digit 10 c \<longleftrightarrow> 48 \<le> (of_char c :: nat) \<and> (of_char c :: nat) \<le> 57"
  by (auto simp: is_digit_def digit_val_def Let_def)

lemma digit_not_ws: "is_digit 10 c \<Longrightarrow> \<not> is_ws c"
  by (auto simp: is_digit10_iff is_ws_def)

lemma digit_not_special:
  "is_digit 10 c \<Longrightarrow>
   c \<notin> {CHR ''-'', CHR ''+'', CHR ''x'', CHR ''X'', CHR ''o'', CHR ''O'', CHR ''b'', CHR ''B'',
        CHR ''I'', CHR ''.''}"
  by (auto simp: is_digit10_iff)

lemma digit_char: "(d::nat) < 10 \<Longrightarrow> is_digit 10 (char_of (48 + d))"
  by (simp add: is_digit10_iff)

lemma digit_char_val: "(d::nat) < 10 \<Longrightarrow> digit_val (char_of (48 + d)) = Some d"
  by (simp add: digit_val_def)

lemma dec_nonempty: "dec n \<noteq> []"
  by (subst dec.simps) simp

lemma dec_digits: "list_all (is_digit 10) (dec n)"
proof (induction n rule: dec.induct)
  case (1 n)
  show ?case
  proof (cases "n < 10")
    case True
    then show ?thesis by (subst dec.simps) (simp add: digit_char)
  next
    case False
    with 1 have "list_all (is_digit 10) (dec (n div 10))" by simp
    moreover have "is_digit 10 (char_of (48 + n mod 10))" by (rule digit_char) simp
    ultimately show ?thesis using False by (subst dec.simps) simp
  qed
qed

lemma digits_val_snoc:
  "digits_val r (ds @ [c]) = digits_val r ds * r + (case digit_val c of None \<Rightarrow> 0 | Some d \<Rightarrow> d)"
  by (simp add: digits_val_def)

lemma digits_val_dec: "digits_val 10 (dec n) = n"
proof (induction n rule: dec.induct)
  case (1 n)
  show ?case
  proof (cases "n < 10")
    case True
    then show ?thesis by (subst dec.simps) (simp add: digits_val_def digit_char_val)
  next
    case False
    with 1 have "digits_val 10 (dec (n div 10)) = n div 10" by simp
    moreover have "digit_val (char_of (48 + n mod 10)) = Some (n mod 10)"
      by (rule digit_char_val) simp
    ultimately show ?thesis using False
      by (subst dec.simps) (simp add: digits_val_snoc)
  qed
qed

lemma trim_digits:
  assumes "ds \<noteq> []" "list_all (is_digit 10) ds"
  shows "trim ds = ds" and "dropWhile is_ws ds = ds"
proof -
  from assms have "is_digit 10 (hd ds)" "is_digit 10 (last ds)"
    by (simp_all add: list_all_iff)
  then have h: "\<not> is_ws (hd ds)" and l: "\<not> is_ws (last ds)"
    by (simp_all add: digit_not_ws)
  from assms h show d: "dropWhile is_ws ds = ds" by (cases ds) auto
  from assms l have "dropWhile is_ws (rev ds) = rev ds"
    by (cases "rev ds") (auto simp: last_rev hd_rev[symmetric])
  with d show "trim ds = ds" by (simp add: trim_def)
qed

lemma prefix_radix_digits:
  assumes "list_all (is_digit 10) ds"
  shows "prefix_radix ds = None"
proof (cases ds)
  case Nil
  then show ?thesis by (simp add: prefix_radix_def)
next
  case outer: (Cons a t)
  show ?thesis
  proof (cases t)
    case Nil
    with outer show ?thesis by (simp add: prefix_radix_def)
  next
    case (Cons b u)
    with assms outer have "is_digit 10 b" by simp
    from digit_not_special[OF this] show ?thesis using Cons outer
      by (simp add: prefix_radix_def)
  qed
qed

lemma takeWhile_digits:
  assumes "list_all (is_digit 10) ds"
  shows "takeWhile (is_digit 10) ds = ds" and "dropWhile (is_digit 10) ds = []"
  using assms by (simp_all add: list_all_iff)

lemma underflow_nat: "underflow (of_nat v) = of_nat v"
proof (cases v)
  case 0
  then show ?thesis by (simp add: underflow_def)
next
  case (Suc k)
  have "(1::rat) / 2 ^ 1075 < 1" by simp
  also have "(1::rat) \<le> of_nat (Suc k)" by simp
  finally show ?thesis using Suc by (simp add: underflow_def)
qed

lemma unsigned_decimal_digits:
  assumes "ds \<noteq> []" "list_all (is_digit 10) ds"
  shows "unsigned_decimal ds = Num (of_nat (digits_val 10 ds))"
proof -
  from assms have "is_digit 10 (hd ds)" by (cases ds) auto
  from digit_not_special[OF this] have "ds \<noteq> ''Infinity''" by auto
  then show ?thesis using assms(1)
    by (simp add: unsigned_decimal_def Let_def exponent_part_def scale10_def underflow_nat
        takeWhile_digits[OF assms(2)])
qed

lemma to_number_digits:
  assumes "ds \<noteq> []" "list_all (is_digit 10) ds"
  shows "to_number ds = Num (of_nat (digits_val 10 ds))"
proof -
  from assms have "is_digit 10 (hd ds)" by (cases ds) auto
  from digit_not_special[OF this] have "hd ds \<noteq> CHR ''-''" "hd ds \<noteq> CHR ''+''" by auto
  then show ?thesis using assms(1)
    by (simp add: to_number_def trim_digits[OF assms] prefix_radix_digits[OF assms(2)]
        unsigned_decimal_digits[OF assms])
qed

lemma parseInt_digits:
  assumes "ds \<noteq> []" "list_all (is_digit 10) ds"
  shows "parseInt ds = Some (int (digits_val 10 ds))"
proof -
  from assms have "is_digit 10 (hd ds)" by (cases ds) auto
  from digit_not_special[OF this] have "hd ds \<noteq> CHR ''-''" "hd ds \<noteq> CHR ''+''" by auto
  then show ?thesis using assms(1)
    by (simp add: parseInt_def Let_def trim_digits[OF assms] prefix_radix_digits[OF assms(2)]
        takeWhile_digits[OF assms(2)])
qed

lemma invalid_id_digits:
  assumes "ds \<noteq> []" "list_all (is_digit 10) ds"
  shows "invalid_id ds \<longleftrightarrow> digits_val 10 ds = 0"
  using assms(1) by (simp add: invalid_id_def isNaN_def le_zero_def to_number_digits[OF assms])

lemma invalid_id_dec: "invalid_id (dec n) \<longleftrightarrow> n = 0"
  by (simp add: invalid_id_digits[OF dec_nonempty dec_digits] digits_val_dec)

lemma parseInt_dec: "parseInt (dec n) = Some (int n)"
  by (simp add: parseInt_digits[OF dec_nonempty dec_digits] digits_val_dec)

section \<open>What the gateway and the service compute\<close>

lemma select_keys: "k \<in> keys (select sel obj) \<Longrightarrow> k \<in> set sel"
  by (auto simp: select_def keys_def)

lemma find_email_iff:
  "(\<exists>y. find (\<lambda>r. email r = e) rows = Some y) = (e \<in> email ` set rows)"
  by (induction rows) auto

lemma emailExists_text: "emailExists db (JStr e) = Inr (e \<in> email ` set (users db))"
  by (simp add: emailExists_def findUnique_email_def find_email_iff)

lemma emailExists_other: "(\<forall>e. v \<noteq> JStr e) \<Longrightarrow> emailExists db v = Inl Unexpected"
  by (cases v) (simp_all add: emailExists_def findUnique_email_def)

lemma createUser_missing:
  "\<not> truthy (get_prop d ''nome'') \<or> \<not> truthy (get_prop d ''email'')
     \<or> \<not> truthy (get_prop d ''senha'')
   \<Longrightarrow> createUser db now d = (db, Inl MissingFields)"
  by (simp add: createUser_def validateUserData_def)

lemma get_prop_Nil: "get_prop [] k = JUndefined"
  by (simp add: get_prop_def)

lemma get_prop_Cons: "get_prop ((k, v) # obj) k' = (if k = k' then v else get_prop obj k')"
  by (simp add: get_prop_def)

lemma is_text_iff: "is_text v \<longleftrightarrow> (\<exists>s. v = JStr s)"
  by (cases v) (simp_all add: is_text_def)

lemma text_arg_truthy:
  "truthy v \<Longrightarrow> text_arg v = (if is_text v then Given (text_of v) else Rejected)"
  by (cases v) (simp_all add: text_arg_def is_text_def text_of_def)

lemma text_arg_or:
  "text_arg (js_or v (JStr p)) =
     (if truthy v then (if is_text v then Given (text_of v) else Rejected) else Given p)"
  by (cases v) (simp_all add: text_arg_def is_text_def text_of_def js_or_def)

lemma nullable_text_arg_or:
  "nullable_text_arg (js_or v JNull) =
     (if truthy v then (if is_text v then Given (Some (text_of v)) else Rejected) else Given None)"
  by (cases v) (simp_all add: nullable_text_arg_def is_text_def text_of_def js_or_def)

lemma new_row_createUser:
  assumes "truthy (get_prop d ''nome'')" "truthy (get_prop d ''email'')" "truthy (get_prop d ''senha'')"
  shows "new_row (id_seq db + 1) now
           [(''nome'', get_prop d ''nome''),
            (''email'', get_prop d ''email''),
            (''senha'', get_prop d ''senha''),
            (''papel'', js_or (get_prop d ''papel'') (JStr ''PROFESSOR'')),
            (''foto'', js_or (get_prop d ''foto'') JNull)]
         = (if creatable d then Some (inserted_row db now d) else None)"
  using assms
  by (simp add: new_row_def get_prop_Cons text_arg_truthy text_arg_or nullable_text_arg_or
      creatable_def inserted_row_def given_or_def)

lemma createUser_result:
  "createUser db now d =
     (if \<not> truthy (get_prop d ''nome'') \<or> \<not> truthy (get_prop d ''email'')
         \<or> \<not> truthy (get_prop d ''senha'')
      then (db, Inl MissingFields)
      else if \<not> is_text (get_prop d ''email'') then (db, Inl Unexpected)
      else if text_of (get_prop d ''email'') \<in> email ` set (users db) then (db, Inl DuplicateEmail)
      else if \<not> creatable d \<or> 2147483647 < id_seq db + 1 then (db, Inl Unexpected)
      else (db\<lparr>users := users db @ [inserted_row db now d], id_seq := id_seq db + 1\<rparr>,
            Inr (select public_fields (row_obj (inserted_row db now d)))))"
proof (cases "\<not> truthy (get_prop d ''nome'') \<or> \<not> truthy (get_prop d ''email'')
         \<or> \<not> truthy (get_prop d ''senha'')")
  case True
  then show ?thesis by (simp add: createUser_missing)
next
  case False
  then have t: "truthy (get_prop d ''nome'')" "truthy (get_prop d ''email'')"
    "truthy (get_prop d ''senha'')" by simp_all
  show ?thesis
  proof (cases "is_text (get_prop d ''email'')")
    case False
    then have "\<forall>e. get_prop d ''email'' \<noteq> JStr e" by (simp add: is_text_iff)
    then have "emailExists db (get_prop d ''email'') = Inl Unexpected" by (rule emailExists_other)
    with t False show ?thesis by (simp add: createUser_def validateUserData_def)
  next
    case True
    then obtain e where e: "get_prop d ''email'' = JStr e" by (auto simp: is_text_iff)
    have ie: "email (inserted_row db now d) = e" by (simp add: inserted_row_def e text_of_def)
    show ?thesis using t e
      by (simp add: createUser_def validateUserData_def emailExists_text[of db e]
          prisma_create_def new_row_createUser[OF t, unfolded e] ie is_text_def text_of_def)
  qed
qed

lemma get_prop_append:
  "get_prop (xs @ ys) k = (if k \<in> fst ` set xs then get_prop xs k else get_prop ys k)"
  by (induction xs) (auto simp: get_prop_def)

lemma get_prop_dados:
  "get_prop (dadosAtualizacao d) ''nome'' = (if truthy (get_prop d ''nome'') then get_prop d ''nome'' else JUndefined)"
  "get_prop (dadosAtualizacao d) ''email'' = (if truthy (get_prop d ''email'') then get_prop d ''email'' else JUndefined)"
  "get_prop (dadosAtualizacao d) ''senha'' = (if truthy (get_prop d ''senha'') then get_prop d ''senha'' else JUndefined)"
  "get_prop (dadosAtualizacao d) ''papel'' = (if truthy (get_prop d ''papel'') then get_prop d ''papel'' else JUndefined)"
  "get_prop (dadosAtualizacao d) ''foto'' = get_prop d ''foto''"
  by (simp_all add: dadosAtualizacao_def get_prop_append get_prop_Cons get_prop_Nil)

lemma dadosAtualizacao_empty:
  "dadosAtualizacao d = [] \<longleftrightarrow>
     \<not> truthy (get_prop d ''nome'') \<and> \<not> truthy (get_prop d ''email'')
     \<and> \<not> truthy (get_prop d ''senha'') \<and> \<not> truthy (get_prop d ''papel'')
     \<and> get_prop d ''foto'' = JUndefined"
  by (simp add: dadosAtualizacao_def)

lemma merged_row_unwritten: "dadosAtualizacao d = [] \<Longrightarrow> merged_row now d r = r"
  by (simp add: merged_row_def dadosAtualizacao_empty)

lemma text_arg_dados_cases:
  "text_arg (if truthy v then v else JUndefined) = Rejected \<longleftrightarrow> truthy v \<and> \<not> is_text v"
  "text_arg (if truthy v then v else JUndefined) = Omitted \<longleftrightarrow> \<not> truthy v"
  by (cases v; simp add: text_arg_def is_text_def)+

lemma given_or_text_arg_dados:
  "truthy v \<longrightarrow> is_text v \<Longrightarrow>
   given_or (text_arg (if truthy v then v else JUndefined)) x = (if truthy v then text_of v else x)"
  by (cases v) (simp_all add: text_arg_def is_text_def text_of_def given_or_def)

lemma nullable_text_arg_dados_cases:
  "nullable_text_arg v = Rejected \<longleftrightarrow> \<not> (v = JUndefined \<or> v = JNull \<or> is_text v)"
  "nullable_text_arg v = Omitted \<longleftrightarrow> v = JUndefined"
  by (cases v; simp add: nullable_text_arg_def is_text_def)+

lemma given_or_nullable_text_arg:
  "v = JUndefined \<or> v = JNull \<or> is_text v \<Longrightarrow>
   given_or (nullable_text_arg v) x
     = (if v = JUndefined then x else if is_text v then Some (text_of v) else None)"
  by (cases v) (simp_all add: nullable_text_arg_def is_text_def text_of_def given_or_def)

lemma apply_update_dados:
  "apply_update now (dadosAtualizacao d) r = (if updatable d then Some (merged_row now d r) else None)"
proof (cases "updatable d")
  case False
  then show ?thesis
    by (simp add: apply_update_def get_prop_dados text_arg_dados_cases
        nullable_text_arg_dados_cases updatable_def)
next
  case True
  then have t: "truthy (get_prop d ''nome'') \<longrightarrow> is_text (get_prop d ''nome'')"
    "truthy (get_prop d ''email'') \<longrightarrow> is_text (get_prop d ''email'')"
    "truthy (get_prop d ''senha'') \<longrightarrow> is_text (get_prop d ''senha'')"
    "truthy (get_prop d ''papel'') \<longrightarrow> is_text (get_prop d ''papel'')"
    and f: "get_prop d ''foto'' = JUndefined \<or> get_prop d ''foto'' = JNull
            \<or> is_text (get_prop d ''foto'')"
    by (simp_all add: updatable_def)
  from t f have accepted:
    "(text_arg (get_prop (dadosAtualizacao d) ''nome'') = Rejected
       \<or> text_arg (get_prop (dadosAtualizacao d) ''email'') = Rejected
       \<or> text_arg (get_prop (dadosAtualizacao d) ''senha'') = Rejected
       \<or> text_arg (get_prop (dadosAtualizacao d) ''papel'') = Rejected
       \<or> nullable_text_arg (get_prop (dadosAtualizacao d) ''foto'') = Rejected) = False"
    by (simp add: get_prop_dados text_arg_dados_cases nullable_text_arg_dados_cases)
  have omitted:
    "(text_arg (get_prop (dadosAtualizacao d) ''nome'') = Omitted
       \<and> text_arg (get_prop (dadosAtualizacao d) ''email'') = Omitted
       \<and> text_arg (get_prop (dadosAtualizacao d) ''senha'') = Omitted
       \<and> text_arg (get_prop (dadosAtualizacao d) ''papel'') = Omitted
       \<and> nullable_text_arg (get_prop (dadosAtualizacao d) ''foto'') = Omitted)
     = (dadosAtualizacao d = [])"
    by (simp add: get_prop_dados text_arg_dados_cases nullable_text_arg_dados_cases
        dadosAtualizacao_empty)
  show ?thesis
  proof (cases "dadosAtualizacao d = []")
    case empty: True
    have e: "(dadosAtualizacao d = []) = True" using empty by simp
    from True show ?thesis
      unfolding apply_update_def accepted omitted e if_True if_False
      by (simp only: merged_row_unwritten[OF empty] if_True)
  next
    case written: False
    then have w: "(dadosAtualizacao d = []) = False" by simp
    from True show ?thesis
      unfolding apply_update_def accepted omitted w if_False
      by (simp only: w merged_row_def if_True if_False
          get_prop_dados given_or_text_arg_dados[OF t(1)] given_or_text_arg_dados[OF t(2)]
          given_or_text_arg_dados[OF t(3)] given_or_text_arg_dados[OF t(4)]
          given_or_nullable_text_arg[OF f])
  qed
qed

lemma get_prop_row_email: "get_prop (select all_fields (row_obj r)) ''email'' = JStr (email r)"
  by (simp add: select_def row_obj_def all_fields_def get_prop_def)

lemma findUnique_id_None: "id_key k = None \<Longrightarrow> findUnique_id db k sel = Inl Unexpected"
  by (simp add: findUnique_id_def)

lemma findUnique_id_Some:
  "id_key k = Some i \<Longrightarrow>
   findUnique_id db k sel = Inr (map_option (\<lambda>r. select sel (row_obj r)) (find (\<lambda>r. user_id r = i) (users db)))"
  by (simp add: findUnique_id_def)

lemma getUserById_result:
  "getUserById db s =
     (if invalid_id s then Inl InvalidInput
      else (case id_key (parseInt s) of
              None \<Rightarrow> Inl Unexpected
            | Some i \<Rightarrow> Inr (map_option (\<lambda>r. select public_fields (row_obj r))
                              (find (\<lambda>r. user_id r = i) (users db)))))"
  by (simp add: getUserById_def findUnique_id_def)

lemma prisma_update_dados:
  assumes "id_key k = Some i" "find (\<lambda>r. user_id r = i) (users db) = Some r"
  shows "prisma_update db now k (dadosAtualizacao d) sel =
     (if \<not> updatable d then (db, Inl Unexpected)
      else if email (merged_row now d r) \<in> email ` set (filter (\<lambda>x. user_id x \<noteq> i) (users db))
      then (db, Inl Unexpected)
      else (db\<lparr>users := map (\<lambda>x. if user_id x = i then merged_row now d r else x) (users db)\<rparr>,
            Inr (select sel (row_obj (merged_row now d r)))))"
  using assms by (simp add: prisma_update_def apply_update_dados)

lemma updateUser_result:
  "updateUser db now s d =
     (if invalid_id s then (db, Inl InvalidInput)
      else (case id_key (parseInt s) of
              None \<Rightarrow> (db, Inl Unexpected)
            | Some i \<Rightarrow>
                (case find (\<lambda>r. user_id r = i) (users db) of
                   None \<Rightarrow> (db, Inl NotFound)
                 | Some r \<Rightarrow>
                     if truthy (get_prop d ''email'') \<and> get_prop d ''email'' \<noteq> JStr (email r)
                     then (if \<not> is_text (get_prop d ''email'') then (db, Inl Unexpected)
                           else if text_of (get_prop d ''email'') \<in> email ` set (users db)
                           then (db, Inl EmailInUse)
                           else prisma_update db now (parseInt s) (dadosAtualizacao d)
                                  (public_fields @ [''updatedAt'']))
                     else prisma_update db now (parseInt s) (dadosAtualizacao d)
                            (public_fields @ [''updatedAt'']))))"
proof (cases "invalid_id s")
  case True
  then show ?thesis by (simp add: updateUser_def)
next
  case valid: False
  show ?thesis
  proof (cases "id_key (parseInt s)")
    case None
    with valid show ?thesis by (simp add: updateUser_def findUnique_id_None)
  next
    case (Some i)
    show ?thesis
    proof (cases "find (\<lambda>r. user_id r = i) (users db)")
      case None
      with valid Some show ?thesis by (simp add: updateUser_def findUnique_id_Some)
    next
      case row: (Some r)
      show ?thesis
      proof (cases "truthy (get_prop d ''email'') \<and> get_prop d ''email'' \<noteq> JStr (email r)")
        case False
        then have c: "(truthy (get_prop d ''email'') \<and> get_prop d ''email'' \<noteq> JStr (email r)) = False"
          by simp
        from valid Some row show ?thesis
          by (simp add: updateUser_def findUnique_id_Some get_prop_row_email c)
      next
        case changed: True
        then have c: "(truthy (get_prop d ''email'') \<and> get_prop d ''email'' \<noteq> JStr (email r)) = True"
          by simp
        show ?thesis
        proof (cases "is_text (get_prop d ''email'')")
          case False
          then have "\<forall>e. get_prop d ''email'' \<noteq> JStr e" by (simp add: is_text_iff)
          then have "emailExists db (get_prop d ''email'') = Inl Unexpected" by (rule emailExists_other)
          with valid Some row False show ?thesis
            by (simp add: updateUser_def findUnique_id_Some get_prop_row_email c)
        next
          case True
          then obtain e where e: "get_prop d ''email'' = JStr e" by (auto simp: is_text_iff)
          have "emailExists db (get_prop d ''email'') = Inr (text_of (get_prop d ''email'') \<in> email ` set (users db))"
            by (simp add: e emailExists_text text_of_def)
          with valid Some row True show ?thesis
            by (simp add: updateUser_def findUnique_id_Some get_prop_row_email c)
        qed
      qed
    qed
  qed
qed

lemma deleteUser_result:
  "deleteUser db s =
     (if invalid_id s then (db, Inl InvalidInput)
      else (case id_key (parseInt s) of
              None \<Rightarrow> (db, Inl Unexpected)
            | Some i \<Rightarrow>
                (case find (\<lambda>r. user_id r = i) (users db) of
                   None \<Rightarrow> (db, Inl NotFound)
                 | Some r \<Rightarrow>
                     (db\<lparr>users := filter (\<lambda>x. user_id x \<noteq> i) (users db)\<rparr>,
                      Inr (select [''id'', ''nome'', ''email''] (row_obj r))))))"
  by (simp add: deleteUser_def findUnique_id_def prisma_delete_def split: option.splits)

lemma table_ok_empty: "table_ok empty_db"
  by (simp add: table_ok_def empty_db_def)

lemma truthy_text_nonempty: "truthy v \<Longrightarrow> is_text v \<Longrightarrow> text_of v \<noteq> []"
  by (cases v) (simp_all add: is_text_def text_of_def)

lemma inserted_row_simps:
  "user_id (inserted_row db now d) = id_seq db + 1"
  "email (inserted_row db now d) = text_of (get_prop d ''email'')"
  "nome (inserted_row db now d) = text_of (get_prop d ''nome'')"
  "senha (inserted_row db now d) = text_of (get_prop d ''senha'')"
  "createdAt (inserted_row db now d) = now"
  "updatedAt (inserted_row db now d) = now"
  by (simp_all add: inserted_row_def)

lemma table_ok_createUser:
  assumes "table_ok db"
  shows "table_ok (fst (createUser db now d))"
proof (cases "fst (createUser db now d) = db")
  case True
  with assms show ?thesis by simp
next
  case False
  then have ok: "truthy (get_prop d ''email'')" "is_text (get_prop d ''email'')"
      "text_of (get_prop d ''email'') \<notin> email ` set (users db)" "id_seq db + 1 \<le> 2147483647"
    and db': "fst (createUser db now d)
              = db\<lparr>users := users db @ [inserted_row db now d], id_seq := id_seq db + 1\<rparr>"
    by (auto simp: createUser_result split: if_splits)
  from assms have "\<forall>r\<in>set (users db). user_id r \<noteq> id_seq db + 1"
    by (auto simp: table_ok_def)
  with assms ok show ?thesis unfolding db'
    by (auto simp: table_ok_def inserted_row_simps truthy_text_nonempty)
qed

lemma merged_row_simps:
  "user_id (merged_row now d r) = user_id r"
  "createdAt (merged_row now d r) = createdAt r"
  "updatedAt (merged_row now d r) = (if dadosAtualizacao d = [] then updatedAt r else now)"
  "email (merged_row now d r) = (if truthy (get_prop d ''email'') then text_of (get_prop d ''email'') else email r)"
  by (simp_all add: merged_row_def)

lemma map_replace_ids:
  "user_id r' = i \<Longrightarrow> map user_id (map (\<lambda>x. if user_id x = i then r' else x) xs) = map user_id xs"
  by (induction xs) auto

lemma distinct_replace_emails:
  assumes "distinct (map user_id xs)" "distinct (map email xs)"
    and "email r' \<notin> email ` set (filter (\<lambda>x. user_id x \<noteq> i) xs)"
  shows "distinct (map email (map (\<lambda>x. if user_id x = i then r' else x) xs))"
  using assms
proof (induction xs)
  case Nil
  then show ?case by simp
next
  case (Cons a xs)
  show ?case
  proof (cases "user_id a = i")
    case True
    from Cons.prems(1) have "user_id a \<notin> user_id ` set xs" by simp
    with True have "\<forall>x\<in>set xs. user_id x \<noteq> i" by blast
    then have same: "map (\<lambda>x. if user_id x = i then r' else x) xs = xs" 
      and all: "filter (\<lambda>x. user_id x \<noteq> i) xs = xs"
      by (simp_all add: map_idI)
    with Cons.prems True show ?thesis by auto
  next
    case False
    with Cons show ?thesis by (auto split: if_splits)
  qed
qed

lemma table_ok_updateUser:
  assumes "table_ok db"
  shows "table_ok (fst (updateUser db now s d))"
proof (cases "fst (updateUser db now s d) = db")
  case True
  with assms show ?thesis by simp
next
  case False
  then obtain i r where i: "id_key (parseInt s) = Some i"
    and r: "find (\<lambda>r. user_id r = i) (users db) = Some r"
    by (auto simp: updateUser_result split: if_splits option.splits)
  let ?r' = "merged_row now d r"
  from r have ri: "user_id r = i" "r \<in> set (users db)" by (auto simp: find_Some_iff)
  from False i r have upd: "updatable d"
    "email ?r' \<notin> email ` set (filter (\<lambda>x. user_id x \<noteq> i) (users db))"
    and db': "fst (updateUser db now s d)
              = db\<lparr>users := map (\<lambda>x. if user_id x = i then ?r' else x) (users db)\<rparr>"
    by (auto simp: updateUser_result prisma_update_dados split: if_splits)
  have ids: "map user_id (map (\<lambda>x. if user_id x = i then ?r' else x) (users db)) = map user_id (users db)"
    by (rule map_replace_ids) (simp add: merged_row_simps ri)
  from assms upd have em: "distinct (map email (map (\<lambda>x. if user_id x = i then ?r' else x) (users db)))"
    by (intro distinct_replace_emails) (simp_all add: table_ok_def)
  from upd assms ri have ne: "email ?r' \<noteq> []"
    by (auto simp: merged_row_simps updatable_def truthy_text_nonempty table_ok_def)
  from assms ri have bd: "0 < user_id ?r'" "user_id ?r' \<le> id_seq db"
    by (auto simp: merged_row_simps table_ok_def)
  from assms ids em ne bd show ?thesis unfolding db'
    by (auto simp: table_ok_def simp del: map_map split: if_splits)
qed

lemma table_ok_deleteUser:
  assumes "table_ok db"
  shows "table_ok (fst (deleteUser db s))"
  using assms
  by (auto simp: deleteUser_result table_ok_def distinct_map_filter split: option.splits)

section \<open>Evaluation on sample data\<close>

lemmas js_eval = to_number_def trim_def is_ws_def prefix_radix_def unsigned_decimal_def is_digit_def
  digit_val_def exponent_part_def digits_val_def underflow_def scale10_def negate_def parseInt_def
  isNaN_def le_zero_def invalid_id_def Let_def

lemmas db_eval = get_prop_def js_or_def row_obj_def select_def all_fields_def public_fields_def
  text_arg_def nullable_text_arg_def given_or_def id_key_def findMany_def findUnique_id_def
  findUnique_email_def new_row_def prisma_create_def apply_update_def prisma_update_def
  prisma_delete_def keys_def

lemmas svc_eval = getAllUsers_def getUserById_def emailExists_def validateUserData_def
  createUser_def dadosAtualizacao_def updateUser_def deleteUser_def getById_def

lemmas sample = empty_db_def ana_def bia_def two_users_def

lemma senha_not_selected:
  "''senha'' \<notin> set public_fields" "''senha'' \<notin> set (public_fields @ [''updatedAt''])"
  "''senha'' \<notin> set [''id'', ''nome'', ''email'']"
  by (simp_all add: public_fields_def)

section \<open>The password is never part of a result\<close>

text \<open>
  C1. Whatever the table and the input, no object returned by a successful
  \<^verbatim>\<open>getAllUsers\<close>, \<^verbatim>\<open>getUserById\<close>, \<^verbatim>\<open>createUser\<close>, \<^verbatim>\<open>updateUser\<close> or \<^verbatim>\<open>deleteUser\<close>
  has the key \<^verbatim>\<open>senha\<close> (the password column).
\<close>

theorem password_never_returned:
  "(\<forall>u\<in>set (getAllUsers db). ''senha'' \<notin> keys u)
   \<and> (\<forall>u. getUserById db userId = Inr (Some u) \<longrightarrow> ''senha'' \<notin> keys u)
   \<and> (\<forall>db' u. createUser db now userData = (db', Inr u) \<longrightarrow> ''senha'' \<notin> keys u)
   \<and> (\<forall>db' u. updateUser db now userId userData = (db', Inr u) \<longrightarrow> ''senha'' \<notin> keys u)
   \<and> (\<forall>db' u. deleteUser db userId = (db', Inr u) \<longrightarrow> ''senha'' \<notin> keys u)"
proof (intro conjI allI impI ballI)
  fix u assume "u \<in> set (getAllUsers db)"
  then obtain r where "u = select public_fields (row_obj r)"
    by (auto simp: getAllUsers_def findMany_def)
  then show "''senha'' \<notin> keys u" using select_keys senha_not_selected(1) by blast
next
  fix u assume "getUserById db userId = Inr (Some u)"
  then obtain r where "u = select public_fields (row_obj r)"
    by (auto simp: getUserById_result split: if_splits option.splits)
  then show "''senha'' \<notin> keys u" using select_keys senha_not_selected(1) by blast
next
  fix db' u assume "createUser db now userData = (db', Inr u)"
  then obtain r where "u = select public_fields (row_obj r)"
    by (auto simp: createUser_result split: if_splits)
  then show "''senha'' \<notin> keys u" using select_keys senha_not_selected(1) by blast
next
  fix db' u assume "updateUser db now userId userData = (db', Inr u)"
  then obtain r where "u = select (public_fields @ [''updatedAt'']) (row_obj r)"
    by (auto simp: updateUser_result prisma_update_dados split: if_splits option.splits)
  then show "''senha'' \<notin> keys u" using select_keys senha_not_selected(2) by blast
next
  fix db' u assume "deleteUser db userId = (db', Inr u)"
  then obtain r where "u = select [''id'', ''nome'', ''email''] (row_obj r)"
    by (auto simp: deleteUser_result split: if_splits option.splits)
  then show "''senha'' \<notin> keys u" using select_keys senha_not_selected(3) by blast
qed

lemma getUserById_ana:
  "getUserById two_users ''1'' =
     Inr (Some [(''id'', JNum 1), (''nome'', JStr ''Ana''), (''email'', JStr ''ana@x.com''),
                (''foto'', JNull), (''papel'', JStr ''PROFESSOR''), (''createdAt'', JDate 10)])"
  by (simp add: js_eval db_eval svc_eval sample)

theorem password_never_returned_witness:
  "getAllUsers two_users =
     [[(''id'', JNum 2), (''nome'', JStr ''Bia''), (''email'', JStr ''bia@x.com''),
       (''foto'', JStr ''b.png''), (''papel'', JStr ''ADMIN''), (''createdAt'', JDate 20)],
      [(''id'', JNum 1), (''nome'', JStr ''Ana''), (''email'', JStr ''ana@x.com''),
       (''foto'', JNull), (''papel'', JStr ''PROFESSOR''), (''createdAt'', JDate 10)]]
   \<and> ''senha'' \<in> keys (row_obj ana)
   \<and> ''senha'' \<notin> keys (hd (getAllUsers two_users))
   \<and> getUserById two_users ''1'' =
       Inr (Some [(''id'', JNum 1), (''nome'', JStr ''Ana''), (''email'', JStr ''ana@x.com''),
                  (''foto'', JNull), (''papel'', JStr ''PROFESSOR''), (''createdAt'', JDate 10)])
   \<and> ''senha'' \<notin> keys [(''id'', JNum 1), (''nome'', JStr ''Ana''), (''email'', JStr ''ana@x.com''),
                  (''foto'', JNull), (''papel'', JStr ''PROFESSOR''), (''createdAt'', JDate 10)]
   \<and> snd (createUser two_users 30 [(''nome'', JStr ''Caio''), (''email'', JStr ''caio@x.com''), (''senha'', JStr ''secret3'')]) =
       Inr [(''id'', JNum 3), (''nome'', JStr ''Caio''), (''email'', JStr ''caio@x.com''),
            (''foto'', JNull), (''papel'', JStr ''PROFESSOR''), (''createdAt'', JDate 30)]
   \<and> snd (updateUser two_users 40 ''2'' [(''senha'', JStr ''changed'')]) =
       Inr [(''id'', JNum 2), (''nome'', JStr ''Bia''), (''email'', JStr ''bia@x.com''),
            (''foto'', JStr ''b.png''), (''papel'', JStr ''ADMIN''), (''createdAt'', JDate 20),
            (''updatedAt'', JDate 40)]
   \<and> snd (deleteUser two_users ''1'') =
       Inr [(''id'', JNum 1), (''nome'', JStr ''Ana''), (''email'', JStr ''ana@x.com'')]"
proof -
  have l: "getAllUsers two_users =
     [[(''id'', JNum 2), (''nome'', JStr ''Bia''), (''email'', JStr ''bia@x.com''),
       (''foto'', JStr ''b.png''), (''papel'', JStr ''ADMIN''), (''createdAt'', JDate 20)],
      [(''id'', JNum 1), (''nome'', JStr ''Ana''), (''email'', JStr ''ana@x.com''),
       (''foto'', JNull), (''papel'', JStr ''PROFESSOR''), (''createdAt'', JDate 10)]]"
    by (simp add: db_eval svc_eval sample)
  have k: "''senha'' \<in> keys (row_obj ana)" by (simp add: keys_def row_obj_def)
  have c: "snd (createUser two_users 30 [(''nome'', JStr ''Caio''), (''email'', JStr ''caio@x.com''), (''senha'', JStr ''secret3'')]) =
       Inr [(''id'', JNum 3), (''nome'', JStr ''Caio''), (''email'', JStr ''caio@x.com''),
            (''foto'', JNull), (''papel'', JStr ''PROFESSOR''), (''createdAt'', JDate 30)]"
    by (simp add: db_eval svc_eval sample)
  have u: "snd (updateUser two_users 40 ''2'' [(''senha'', JStr ''changed'')]) =
       Inr [(''id'', JNum 2), (''nome'', JStr ''Bia''), (''email'', JStr ''bia@x.com''),
            (''foto'', JStr ''b.png''), (''papel'', JStr ''ADMIN''), (''createdAt'', JDate 20),
            (''updatedAt'', JDate 40)]"
    by (simp add: js_eval db_eval svc_eval sample)
  have d: "snd (deleteUser two_users ''1'') =
       Inr [(''id'', JNum 1), (''nome'', JStr ''Ana''), (''email'', JStr ''ana@x.com'')]"
    by (simp add: js_eval db_eval svc_eval sample)
  from password_never_returned [of two_users "''1''" 30 "[]"] l have
    "''senha'' \<notin> keys (hd (getAllUsers two_users))"
    "''senha'' \<notin> keys [(''id'', JNum 1), (''nome'', JStr ''Ana''), (''email'', JStr ''ana@x.com''),
                  (''foto'', JNull), (''papel'', JStr ''PROFESSOR''), (''createdAt'', JDate 10)]"
    by (simp_all add: getUserById_ana)
  with l k c u d getUserById_ana show ?thesis by simp
qed

section \<open>Listing\<close>

lemma select_public: "select public_fields (row_obj r) = public_view r"
  by (simp add: select_def public_fields_def row_obj_def public_view_def)

lemma created_of_public: "created_of (public_view r) = createdAt r"
  by (simp add: created_of_def public_view_def get_prop_def)

lemma getAllUsers_rows: "getAllUsers db = map public_view (rev (sort_key createdAt (users db)))"
  by (simp add: getAllUsers_def findMany_def select_public)

text \<open>
  C9. \<^verbatim>\<open>getAllUsers\<close> returns one object per row of the table, no more and no fewer
  (as multisets: the public views of all rows, which have no \<^verbatim>\<open>senha\<close>), and the list is
  ordered by \<^verbatim>\<open>createdAt\<close>, newest first.
\<close>

theorem list_all_users_newest_first:
  "length (getAllUsers db) = length (users db)
   \<and> mset (getAllUsers db) = image_mset public_view (mset (users db))
   \<and> sorted_wrt (\<lambda>a b. created_of b \<le> created_of a) (getAllUsers db)"
proof -
  have "sorted (map createdAt (sort_key createdAt (users db)))" by (rule sorted_sort_key)
  then have "sorted_wrt (\<lambda>a b. b \<le> a) (map createdAt (rev (sort_key createdAt (users db))))"
    by (simp add: rev_map[symmetric] sorted_wrt_rev del: rev_map)
  then have "sorted_wrt (\<lambda>a b. created_of b \<le> created_of a) (getAllUsers db)"
    by (simp add: getAllUsers_rows sorted_wrt_map created_of_public)
  then show ?thesis by (simp add: getAllUsers_rows)
qed

theorem list_all_users_newest_first_witness:
  "getAllUsers two_users = [public_view bia, public_view ana]
   \<and> mset [public_view bia, public_view ana] = image_mset public_view (mset [ana, bia])
   \<and> created_of (public_view ana) \<le> created_of (public_view bia)
   \<and> ''senha'' \<notin> keys (public_view bia)"
proof -
  have l: "getAllUsers two_users = [public_view bia, public_view ana]"
    by (simp add: getAllUsers_rows two_users_def ana_def bia_def)
  have c: "created_of (public_view ana) \<le> created_of (public_view bia)"
    by (simp add: created_of_public ana_def bia_def)
  have k: "''senha'' \<notin> keys (public_view bia)"
    by (simp add: keys_def public_view_def)
  from list_all_users_newest_first [of two_users]
  have m: "mset [public_view bia, public_view ana] = image_mset public_view (mset [ana, bia])"
    unfolding l by (simp add: two_users_def)
  from l c k m show ?thesis by (simp only: simp_thms)
qed

section \<open>Creation\<close>

lemma absent_or_empty_iff: "absent_or_empty v \<longleftrightarrow> \<not> truthy v"
  by (cases v) (auto simp: absent_or_empty_def)

lemma find_append_new:
  "\<forall>x\<in>set xs. \<not> P x \<Longrightarrow> P y \<Longrightarrow> find P (xs @ [y]) = Some y"
  by (induction xs) auto

lemma createUser_MissingFields_iff:
  "snd (createUser db now d) = Inl MissingFields \<longleftrightarrow>
     \<not> truthy (get_prop d ''nome'') \<or> \<not> truthy (get_prop d ''email'')
     \<or> \<not> truthy (get_prop d ''senha'')"
  by (simp add: createUser_result)

lemma createUser_ok:
  assumes "truthy (get_prop d ''nome'')" "truthy (get_prop d ''email'')" "truthy (get_prop d ''senha'')"
    and "creatable d" "text_of (get_prop d ''email'') \<notin> email ` set (users db)"
    and "id_seq db < 2147483647"
  shows "createUser db now d =
           (db\<lparr>users := users db @ [inserted_row db now d], id_seq := id_seq db + 1\<rparr>,
            Inr (public_view (inserted_row db now d)))"
  using assms by (simp add: createUser_result select_public creatable_def)

lemma getUserById_dec:
  assumes "0 < n" "n \<le> 2147483647"
  shows "getUserById db (dec n) =
           Inr (map_option public_view (find (\<lambda>r. user_id r = int n) (users db)))"
  using assms
  by (simp add: getUserById_result invalid_id_dec parseInt_dec id_key_def select_public)

text \<open>
  C2. \<^verbatim>\<open>createUser\<close> fails with \<open>MissingFields\<close> exactly when \<^verbatim>\<open>nome\<close>, \<^verbatim>\<open>email\<close> or
  \<^verbatim>\<open>senha\<close> is absent or an empty value (for a text field: absent, \<^verbatim>\<open>null\<close> or the empty
  string). On a table that satisfies its constraints and whose sequence is not exhausted, a
  payload with the three fields non-empty text, an unused email, and a role and a photo that
  are text when given, succeeds: one row is appended with the next key, the fields as given,
  \<^verbatim>\<open>papel\<close> \<^verbatim>\<open>PROFESSOR\<close> when omitted, \<^verbatim>\<open>foto\<close> \<^verbatim>\<open>null\<close> when omitted; the result is the public
  view of that row, without \<^verbatim>\<open>senha\<close>; and \<^verbatim>\<open>getUserById\<close> on the decimal rendering of the
  returned id finds that same user, with the name and email of the payload.
\<close>

theorem create_validates_persists_and_is_found:
  "(snd (createUser db now d) = Inl MissingFields \<longleftrightarrow>
      absent_or_empty (get_prop d ''nome'') \<or> absent_or_empty (get_prop d ''email'')
      \<or> absent_or_empty (get_prop d ''senha''))
   \<and> (table_ok db \<and> id_seq db < 2147483647
        \<and> get_prop d ''nome'' = JStr n \<and> n \<noteq> []
        \<and> get_prop d ''email'' = JStr e \<and> e \<noteq> []
        \<and> get_prop d ''senha'' = JStr s \<and> s \<noteq> []
        \<and> (truthy (get_prop d ''papel'') \<longrightarrow> is_text (get_prop d ''papel''))
        \<and> (truthy (get_prop d ''foto'') \<longrightarrow> is_text (get_prop d ''foto''))
        \<and> e \<notin> email ` set (users db)
      \<longrightarrow> (\<exists>row.
             createUser db now d
               = (db\<lparr>users := users db @ [row], id_seq := id_seq db + 1\<rparr>, Inr (public_view row))
             \<and> user_id row = id_seq db + 1 \<and> nome row = n \<and> email row = e \<and> senha row = s
             \<and> createdAt row = now \<and> updatedAt row = now
             \<and> (get_prop d ''papel'' = JUndefined \<longrightarrow> papel row = ''PROFESSOR'')
             \<and> (\<forall>p. get_prop d ''papel'' = JStr p \<and> p \<noteq> [] \<longrightarrow> papel row = p)
             \<and> (get_prop d ''foto'' = JUndefined \<longrightarrow> foto row = None)
             \<and> (\<forall>p. get_prop d ''foto'' = JStr p \<and> p \<noteq> [] \<longrightarrow> foto row = Some p)
             \<and> ''senha'' \<notin> keys (public_view row)
             \<and> getUserById (fst (createUser db now d)) (dec (nat (user_id row)))
                 = Inr (Some (public_view row))
             \<and> get_prop (public_view row) ''nome'' = JStr n
             \<and> get_prop (public_view row) ''email'' = JStr e))"
proof (intro conjI impI)
  show "snd (createUser db now d) = Inl MissingFields \<longleftrightarrow>
      absent_or_empty (get_prop d ''nome'') \<or> absent_or_empty (get_prop d ''email'')
      \<or> absent_or_empty (get_prop d ''senha'')"
    by (simp add: createUser_MissingFields_iff absent_or_empty_iff)
next
  assume h: "table_ok db \<and> id_seq db < 2147483647
        \<and> get_prop d ''nome'' = JStr n \<and> n \<noteq> []
        \<and> get_prop d ''email'' = JStr e \<and> e \<noteq> []
        \<and> get_prop d ''senha'' = JStr s \<and> s \<noteq> []
        \<and> (truthy (get_prop d ''papel'') \<longrightarrow> is_text (get_prop d ''papel''))
        \<and> (truthy (get_prop d ''foto'') \<longrightarrow> is_text (get_prop d ''foto''))
        \<and> e \<notin> email ` set (users db)"
  let ?row = "inserted_row db now d"
  let ?db' = "db\<lparr>users := users db @ [?row], id_seq := id_seq db + 1\<rparr>"
  from h have cr: "creatable d" by (simp add: creatable_def is_text_def)
  from h cr have c: "createUser db now d = (?db', Inr (public_view ?row))"
    by (intro createUser_ok) (simp_all add: text_of_def)
  from h have f: "nome ?row = n" "email ?row = e" "senha ?row = s"
    by (simp_all add: inserted_row_simps text_of_def)
  have role: "get_prop d ''papel'' = JUndefined \<longrightarrow> papel ?row = ''PROFESSOR''"
    "\<forall>p. get_prop d ''papel'' = JStr p \<and> p \<noteq> [] \<longrightarrow> papel ?row = p"
    by (simp_all add: inserted_row_def text_of_def)
  have photo: "get_prop d ''foto'' = JUndefined \<longrightarrow> foto ?row = None"
    "\<forall>p. get_prop d ''foto'' = JStr p \<and> p \<noteq> [] \<longrightarrow> foto ?row = Some p"
    by (simp_all add: inserted_row_def text_of_def)
  have k: "''senha'' \<notin> keys (public_view ?row)" by (simp add: keys_def public_view_def)
  from h have fresh: "\<forall>x\<in>set (users db). \<not> user_id x = id_seq db + 1"
    by (auto simp: table_ok_def)
  from h have b: "0 \<le> id_seq db" "id_seq db < 2147483647"
    by (simp_all add: table_ok_def)
  then have pos: "0 < nat (id_seq db + 1)" "nat (id_seq db + 1) \<le> 2147483647"
    "int (nat (id_seq db + 1)) = id_seq db + 1"
    by linarith+
  have "getUserById ?db' (dec (nat (id_seq db + 1)))
          = Inr (map_option public_view
                  (find (\<lambda>r. user_id r = int (nat (id_seq db + 1))) (users ?db')))"
    by (rule getUserById_dec[OF pos(1,2)])
  also have "\<dots> = Inr (Some (public_view ?row))"
    unfolding pos(3) using fresh by (simp add: find_append_new inserted_row_simps)
  finally have g: "getUserById (fst (createUser db now d)) (dec (nat (user_id ?row)))
                 = Inr (Some (public_view ?row))"
    by (simp add: c inserted_row_simps)
  have v: "get_prop (public_view ?row) ''nome'' = JStr n" "get_prop (public_view ?row) ''email'' = JStr e"
    using f by (simp_all add: public_view_def get_prop_def)
  show "\<exists>row.
             createUser db now d
               = (db\<lparr>users := users db @ [row], id_seq := id_seq db + 1\<rparr>, Inr (public_view row))
             \<and> user_id row = id_seq db + 1 \<and> nome row = n \<and> email row = e \<and> senha row = s
             \<and> createdAt row = now \<and> updatedAt row = now
             \<and> (get_prop d ''papel'' = JUndefined \<longrightarrow> papel row = ''PROFESSOR'')
             \<and> (\<forall>p. get_prop d ''papel'' = JStr p \<and> p \<noteq> [] \<longrightarrow> papel row = p)
             \<and> (get_prop d ''foto'' = JUndefined \<longrightarrow> foto row = None)
             \<and> (\<forall>p. get_prop d ''foto'' = JStr p \<and> p \<noteq> [] \<longrightarrow> foto row = Some p)
             \<and> ''senha'' \<notin> keys (public_view row)
             \<and> getUserById (fst (createUser db now d)) (dec (nat (user_id row)))
                 = Inr (Some (public_view row))
             \<and> get_prop (public_view row) ''nome'' = JStr n
             \<and> get_prop (public_view row) ''email'' = JStr e"
    using c f role photo k g v
    by (intro exI[of _ ?row]) (simp add: inserted_row_simps)
qed

theorem create_validates_persists_and_is_found_witness:
  "table_ok empty_db
   \<and> createUser empty_db 5
         [(''nome'', JStr ''A''), (''email'', JStr ''a@x.com''), (''senha'', JStr ''secret1'')]
       = (\<lparr>users = [\<lparr>user_id = 1, nome = ''A'', email = ''a@x.com'', senha = ''secret1'',
                       foto = None, papel = ''PROFESSOR'', createdAt = 5, updatedAt = 5\<rparr>],
           id_seq = 1\<rparr>,
          Inr [(''id'', JNum 1), (''nome'', JStr ''A''), (''email'', JStr ''a@x.com''),
               (''foto'', JNull), (''papel'', JStr ''PROFESSOR''), (''createdAt'', JDate 5)])
   \<and> getUserById
         \<lparr>users = [\<lparr>user_id = 1, nome = ''A'', email = ''a@x.com'', senha = ''secret1'',
                      foto = None, papel = ''PROFESSOR'', createdAt = 5, updatedAt = 5\<rparr>],
          id_seq = 1\<rparr> ''1''
       = Inr (Some [(''id'', JNum 1), (''nome'', JStr ''A''), (''email'', JStr ''a@x.com''),
                    (''foto'', JNull), (''papel'', JStr ''PROFESSOR''), (''createdAt'', JDate 5)])
   \<and> snd (createUser empty_db 5 [(''nome'', JStr ''A''), (''senha'', JStr ''secret1'')])
       = Inl MissingFields
   \<and> snd (createUser empty_db 5
             [(''nome'', JStr ''A''), (''email'', JStr []), (''senha'', JStr ''secret1'')])
       = Inl MissingFields"
proof -
  let ?d = "[(''nome'', JStr ''A''), (''email'', JStr ''a@x.com''), (''senha'', JStr ''secret1'')]"
  let ?R = "\<lparr>user_id = 1, nome = ''A'', email = ''a@x.com'', senha = ''secret1'',
             foto = None, papel = ''PROFESSOR'', createdAt = 5, updatedAt = 5\<rparr>"
  have c: "createUser empty_db 5 ?d
       = (\<lparr>users = [?R], id_seq = 1\<rparr>,
          Inr [(''id'', JNum 1), (''nome'', JStr ''A''), (''email'', JStr ''a@x.com''),
               (''foto'', JNull), (''papel'', JStr ''PROFESSOR''), (''createdAt'', JDate 5)])"
    by (simp add: db_eval svc_eval sample)
  have one: "dec (nat 1) = ''1''" by (simp add: dec.simps char_of_eq_iff)
  have seq: "id_seq empty_db < 2147483647" "''a@x.com'' \<notin> email ` set (users empty_db)"
    by (simp_all add: empty_db_def)
  have hyp: "table_ok empty_db \<and> id_seq empty_db < 2147483647
        \<and> get_prop ?d ''nome'' = JStr ''A'' \<and> ''A'' \<noteq> []
        \<and> get_prop ?d ''email'' = JStr ''a@x.com'' \<and> ''a@x.com'' \<noteq> []
        \<and> get_prop ?d ''senha'' = JStr ''secret1'' \<and> ''secret1'' \<noteq> []
        \<and> (truthy (get_prop ?d ''papel'') \<longrightarrow> is_text (get_prop ?d ''papel''))
        \<and> (truthy (get_prop ?d ''foto'') \<longrightarrow> is_text (get_prop ?d ''foto''))
        \<and> ''a@x.com'' \<notin> email ` set (users empty_db)"
    using table_ok_empty seq by (simp add: get_prop_def)
  from create_validates_persists_and_is_found
         [of empty_db 5 ?d "''A''" "''a@x.com''" "''secret1''", THEN conjunct2, rule_format, OF hyp]
  obtain row where r:
    "createUser empty_db 5 ?d
       = (empty_db\<lparr>users := users empty_db @ [row], id_seq := id_seq empty_db + 1\<rparr>,
          Inr (public_view row))"
    "user_id row = id_seq empty_db + 1"
    "getUserById (fst (createUser empty_db 5 ?d)) (dec (nat (user_id row)))
       = Inr (Some (public_view row))"
    by blast
  from r(1)[unfolded c] have "row = ?R" by (simp add: empty_db_def)
  with r(3) have "getUserById \<lparr>users = [?R], id_seq = 1\<rparr> (dec (nat 1)) = Inr (Some (public_view ?R))"
    by (simp add: c)
  then have g: "getUserById \<lparr>users = [?R], id_seq = 1\<rparr> ''1''
       = Inr (Some [(''id'', JNum 1), (''nome'', JStr ''A''), (''email'', JStr ''a@x.com''),
                    (''foto'', JNull), (''papel'', JStr ''PROFESSOR''), (''createdAt'', JDate 5)])"
    unfolding one by (simp add: public_view_def)
  from create_validates_persists_and_is_found
         [of empty_db 5 "[(''nome'', JStr ''A''), (''senha'', JStr ''secret1'')]"]
  have m1: "snd (createUser empty_db 5 [(''nome'', JStr ''A''), (''senha'', JStr ''secret1'')])
       = Inl MissingFields"
    by (simp add: get_prop_def absent_or_empty_def)
  from create_validates_persists_and_is_found
         [of empty_db 5 "[(''nome'', JStr ''A''), (''email'', JStr []), (''senha'', JStr ''secret1'')]"]
  have m2: "snd (createUser empty_db 5
             [(''nome'', JStr ''A''), (''email'', JStr []), (''senha'', JStr ''secret1'')])
       = Inl MissingFields"
    by (simp add: get_prop_def absent_or_empty_def)
  from c g m1 m2 table_ok_empty show ?thesis by (simp only: simp_thms)
qed

section \<open>Uniqueness of the email\<close>

lemma reachable_table_ok: "reachable db \<Longrightarrow> table_ok db"
  by (induction rule: reachable.induct)
     (simp_all add: table_ok_empty table_ok_createUser table_ok_updateUser table_ok_deleteUser)

lemma createUser_duplicate:
  assumes "truthy (get_prop d ''nome'')" "truthy (get_prop d ''senha'')"
    and "get_prop d ''email'' = JStr e" "e \<noteq> []" "e \<in> email ` set (users db)"
  shows "createUser db now d = (db, Inl DuplicateEmail)"
  using assms by (simp add: createUser_result is_text_def text_of_def)

text \<open>
  C3. In every table the service can build from the empty one, no two rows have the same
  email. A creation payload that passes the required-field check (the check runs first) and
  whose email some row already holds fails with \<open>DuplicateEmail\<close> and leaves the table as it
  was. Two creations in sequence with the same email, not held before, from payloads that
  pass the check (the first one fitting the columns, the sequence not exhausted): the first
  succeeds and the second fails with \<open>DuplicateEmail\<close>.
\<close>

theorem email_unique_and_duplicates_rejected:
  "(reachable db \<longrightarrow> distinct (map email (users db)))
   \<and> (truthy (get_prop d ''nome'') \<and> truthy (get_prop d ''senha'')
        \<and> get_prop d ''email'' = JStr e \<and> e \<noteq> [] \<and> e \<in> email ` set (users db)
      \<longrightarrow> createUser db now d = (db, Inl DuplicateEmail))
   \<and> (truthy (get_prop first ''nome'') \<and> truthy (get_prop first ''senha'') \<and> creatable first
        \<and> truthy (get_prop second ''nome'') \<and> truthy (get_prop second ''senha'')
        \<and> get_prop first ''email'' = JStr e \<and> get_prop second ''email'' = JStr e \<and> e \<noteq> []
        \<and> e \<notin> email ` set (users db) \<and> id_seq db < 2147483647
      \<longrightarrow> (\<exists>db1 u. createUser db now first = (db1, Inr u)
                    \<and> createUser db1 later second = (db1, Inl DuplicateEmail)))"
proof (intro conjI impI)
  assume "reachable db"
  then have "table_ok db" by (rule reachable_table_ok)
  then show "distinct (map email (users db))" by (simp add: table_ok_def)
next
  assume "truthy (get_prop d ''nome'') \<and> truthy (get_prop d ''senha'')
        \<and> get_prop d ''email'' = JStr e \<and> e \<noteq> [] \<and> e \<in> email ` set (users db)"
  then show "createUser db now d = (db, Inl DuplicateEmail)"
    by (intro createUser_duplicate[where e = e]) simp_all
next
  assume h: "truthy (get_prop first ''nome'') \<and> truthy (get_prop first ''senha'') \<and> creatable first
        \<and> truthy (get_prop second ''nome'') \<and> truthy (get_prop second ''senha'')
        \<and> get_prop first ''email'' = JStr e \<and> get_prop second ''email'' = JStr e \<and> e \<noteq> []
        \<and> e \<notin> email ` set (users db) \<and> id_seq db < 2147483647"
  let ?row = "inserted_row db now first"
  let ?db1 = "db\<lparr>users := users db @ [?row], id_seq := id_seq db + 1\<rparr>"
  from h have first: "createUser db now first = (?db1, Inr (public_view ?row))"
    by (intro createUser_ok) (simp_all add: text_of_def)
  from h have "e \<in> email ` set (users ?db1)"
    by (simp add: inserted_row_simps text_of_def)
  with h have "createUser ?db1 later second = (?db1, Inl DuplicateEmail)"
    by (intro createUser_duplicate[where e = e]) simp_all
  with first show "\<exists>db1 u. createUser db now first = (db1, Inr u)
                    \<and> createUser db1 later second = (db1, Inl DuplicateEmail)"
    by blast
qed

theorem email_unique_and_duplicates_rejected_witness:
  "reachable (fst (createUser empty_db 5
       [(''nome'', JStr ''A''), (''email'', JStr ''a@x.com''), (''senha'', JStr ''secret1'')]))
   \<and> distinct (map email (users (fst (createUser empty_db 5
       [(''nome'', JStr ''A''), (''email'', JStr ''a@x.com''), (''senha'', JStr ''secret1'')]))))
   \<and> createUser two_users 30
        [(''nome'', JStr ''Ana 2''), (''email'', JStr ''ana@x.com''), (''senha'', JStr ''pw'')]
      = (two_users, Inl DuplicateEmail)
   \<and> (\<exists>db1 u. createUser empty_db 5
                  [(''nome'', JStr ''A''), (''email'', JStr ''a@x.com''), (''senha'', JStr ''secret1'')]
                = (db1, Inr u)
              \<and> createUser db1 6
                  [(''nome'', JStr ''B''), (''email'', JStr ''a@x.com''), (''senha'', JStr ''secret2'')]
                = (db1, Inl DuplicateEmail))"
proof -
  let ?d1 = "[(''nome'', JStr ''A''), (''email'', JStr ''a@x.com''), (''senha'', JStr ''secret1'')]"
  let ?d2 = "[(''nome'', JStr ''B''), (''email'', JStr ''a@x.com''), (''senha'', JStr ''secret2'')]"
  let ?d = "[(''nome'', JStr ''Ana 2''), (''email'', JStr ''ana@x.com''), (''senha'', JStr ''pw'')]"
  have r: "reachable (fst (createUser empty_db 5 ?d1))"
    by (intro reachable.create reachable.start)
  note main = email_unique_and_duplicates_rejected
  from main [where db = "fst (createUser empty_db 5 ?d1)", THEN conjunct1] r
  have a: "distinct (map email (users (fst (createUser empty_db 5 ?d1))))" by simp
  have "truthy (get_prop ?d ''nome'') \<and> truthy (get_prop ?d ''senha'')
        \<and> get_prop ?d ''email'' = JStr ''ana@x.com'' \<and> ''ana@x.com'' \<noteq> []
        \<and> ''ana@x.com'' \<in> email ` set (users two_users)"
    by (simp add: get_prop_def two_users_def ana_def)
  from main [where d = ?d and e = "''ana@x.com''" and db = two_users and now = 30, THEN conjunct2, THEN conjunct1, rule_format, OF this]
  have b: "createUser two_users 30 ?d = (two_users, Inl DuplicateEmail)" .
  have "truthy (get_prop ?d1 ''nome'') \<and> truthy (get_prop ?d1 ''senha'') \<and> creatable ?d1
        \<and> truthy (get_prop ?d2 ''nome'') \<and> truthy (get_prop ?d2 ''senha'')
        \<and> get_prop ?d1 ''email'' = JStr ''a@x.com'' \<and> get_prop ?d2 ''email'' = JStr ''a@x.com''
        \<and> ''a@x.com'' \<noteq> []
        \<and> ''a@x.com'' \<notin> email ` set (users empty_db) \<and> id_seq empty_db < 2147483647"
    by (simp add: get_prop_def creatable_def is_text_def empty_db_def)
  from main [where db = empty_db and first = ?d1 and second = ?d2 and e = "''a@x.com''" and now = 5 and later = 6, THEN conjunct2, THEN conjunct2, rule_format, OF this]
  have c: "\<exists>db1 u. createUser empty_db 5 ?d1 = (db1, Inr u)
              \<and> createUser db1 6 ?d2 = (db1, Inl DuplicateEmail)" .
  from r a b c show ?thesis by (simp only: simp_thms)
qed

section \<open>Defaults of role and photo at creation\<close>

lemma get_prop_without_key:
  "get_prop (without_key k d) k' = (if k' = k then JUndefined else get_prop d k')"
proof -
  have "map_of (filter (\<lambda>kv. fst kv \<noteq> k) d) k' = (if k' = k then None else map_of d k')"
    by (induction d) auto
  then show ?thesis by (simp add: get_prop_def without_key_def)
qed

lemma createUser_cong:
  assumes "get_prop d ''nome'' = get_prop d' ''nome''" "get_prop d ''email'' = get_prop d' ''email''"
    and "get_prop d ''senha'' = get_prop d' ''senha''"
    and "js_or (get_prop d ''papel'') (JStr ''PROFESSOR'') = js_or (get_prop d' ''papel'') (JStr ''PROFESSOR'')"
    and "js_or (get_prop d ''foto'') JNull = js_or (get_prop d' ''foto'') JNull"
  shows "createUser db now d = createUser db now d'"
  by (simp only: createUser_def validateUserData_def assms)

lemma inserted_row_role_photo:
  "\<not> truthy (get_prop d ''papel'') \<Longrightarrow> papel (inserted_row db now d) = ''PROFESSOR''"
  "\<not> truthy (get_prop d ''foto'') \<Longrightarrow> foto (inserted_row db now d) = None"
  by (simp_all add: inserted_row_def)

lemma createUser_success:
  assumes "createUser db now d = (db', Inr u)"
  shows "db' = db\<lparr>users := users db @ [inserted_row db now d], id_seq := id_seq db + 1\<rparr>"
    and "u = public_view (inserted_row db now d)"
  using assms by (auto simp: createUser_result select_public split: if_splits)

text \<open>
  C10. When \<^verbatim>\<open>papel\<close> is present in the creation payload but falsy (\<^verbatim>\<open>null\<close>, \<^verbatim>\<open>false\<close>, 0 or
  the empty string), \<^verbatim>\<open>createUser\<close> returns exactly what it returns for the payload without that
  property, and on success the stored and the returned role is \<^verbatim>\<open>PROFESSOR\<close>. Likewise for
  \<^verbatim>\<open>foto\<close>, stored and returned as \<^verbatim>\<open>null\<close>.
\<close>

theorem create_falsy_role_or_photo_as_omitted:
  "(get_prop d ''papel'' \<in> {JNull, JBool False, JNum 0, JStr []}
      \<longrightarrow> createUser db now d = createUser db now (without_key ''papel'' d)
          \<and> (\<forall>db' u. createUser db now d = (db', Inr u)
                \<longrightarrow> papel (last (users db')) = ''PROFESSOR'' \<and> get_prop u ''papel'' = JStr ''PROFESSOR''))
   \<and> (get_prop d ''foto'' \<in> {JNull, JBool False, JNum 0, JStr []}
      \<longrightarrow> createUser db now d = createUser db now (without_key ''foto'' d)
          \<and> (\<forall>db' u. createUser db now d = (db', Inr u)
                \<longrightarrow> foto (last (users db')) = None \<and> get_prop u ''foto'' = JNull))"
proof (intro conjI impI allI)
  assume h: "get_prop d ''papel'' \<in> {JNull, JBool False, JNum 0, JStr []}"
  then have f: "\<not> truthy (get_prop d ''papel'')" by auto
  then show "createUser db now d = createUser db now (without_key ''papel'' d)"
    by (intro createUser_cong) (simp_all add: get_prop_without_key js_or_def)
  fix db' u assume "createUser db now d = (db', Inr u)"
  from createUser_success[OF this] f
  show "papel (last (users db')) = ''PROFESSOR''" "get_prop u ''papel'' = JStr ''PROFESSOR''"
    by (simp_all add: inserted_row_role_photo public_view_def get_prop_def)
next
  assume h: "get_prop d ''foto'' \<in> {JNull, JBool False, JNum 0, JStr []}"
  then have f: "\<not> truthy (get_prop d ''foto'')" by auto
  then show "createUser db now d = createUser db now (without_key ''foto'' d)"
    by (intro createUser_cong) (simp_all add: get_prop_without_key js_or_def)
  fix db' u assume "createUser db now d = (db', Inr u)"
  from createUser_success[OF this] f
  show "foto (last (users db')) = None" "get_prop u ''foto'' = JNull"
    by (simp_all add: inserted_row_role_photo public_view_def get_prop_def)
qed

theorem create_falsy_role_or_photo_as_omitted_witness:
  "createUser empty_db 5
     [(''nome'', JStr ''A''), (''email'', JStr ''a@x.com''), (''senha'', JStr ''secret1''),
      (''papel'', JStr []), (''foto'', JNull)]
   = (\<lparr>users = [\<lparr>user_id = 1, nome = ''A'', email = ''a@x.com'', senha = ''secret1'',
                   foto = None, papel = ''PROFESSOR'', createdAt = 5, updatedAt = 5\<rparr>],
       id_seq = 1\<rparr>,
      Inr [(''id'', JNum 1), (''nome'', JStr ''A''), (''email'', JStr ''a@x.com''),
           (''foto'', JNull), (''papel'', JStr ''PROFESSOR''), (''createdAt'', JDate 5)])
   \<and> createUser empty_db 5
     [(''nome'', JStr ''A''), (''email'', JStr ''a@x.com''), (''senha'', JStr ''secret1''),
      (''papel'', JStr []), (''foto'', JNull)]
     = createUser empty_db 5
     [(''nome'', JStr ''A''), (''email'', JStr ''a@x.com''), (''senha'', JStr ''secret1''),
      (''foto'', JNull)]
   \<and> createUser empty_db 5
     [(''nome'', JStr ''A''), (''email'', JStr ''a@x.com''), (''senha'', JStr ''secret1''),
      (''papel'', JStr []), (''foto'', JNull)]
     = createUser empty_db 5
     [(''nome'', JStr ''A''), (''email'', JStr ''a@x.com''), (''senha'', JStr ''secret1''),
      (''papel'', JStr [])]"
proof -
  let ?d = "[(''nome'', JStr ''A''), (''email'', JStr ''a@x.com''), (''senha'', JStr ''secret1''),
      (''papel'', JStr []), (''foto'', JNull)]"
  have c: "createUser empty_db 5 ?d
   = (\<lparr>users = [\<lparr>user_id = 1, nome = ''A'', email = ''a@x.com'', senha = ''secret1'',
                   foto = None, papel = ''PROFESSOR'', createdAt = 5, updatedAt = 5\<rparr>],
       id_seq = 1\<rparr>,
      Inr [(''id'', JNum 1), (''nome'', JStr ''A''), (''email'', JStr ''a@x.com''),
           (''foto'', JNull), (''papel'', JStr ''PROFESSOR''), (''createdAt'', JDate 5)])"
    by (simp add: db_eval svc_eval sample)
  have p: "get_prop ?d ''papel'' \<in> {JNull, JBool False, JNum 0, JStr []}"
    and f: "get_prop ?d ''foto'' \<in> {JNull, JBool False, JNum 0, JStr []}"
    by (simp_all add: get_prop_def)
  note main = create_falsy_role_or_photo_as_omitted [where d = ?d and db = empty_db and now = 5]
  from main [THEN conjunct1, rule_format, OF p, THEN conjunct1]
  have a: "createUser empty_db 5 ?d = createUser empty_db 5
     [(''nome'', JStr ''A''), (''email'', JStr ''a@x.com''), (''senha'', JStr ''secret1''),
      (''foto'', JNull)]"
    by (simp add: without_key_def)
  from main [THEN conjunct2, rule_format, OF f, THEN conjunct1]
  have b: "createUser empty_db 5 ?d = createUser empty_db 5
     [(''nome'', JStr ''A''), (''email'', JStr ''a@x.com''), (''senha'', JStr ''secret1''),
      (''papel'', JStr [])]"
    by (simp add: without_key_def)
  from c a b show ?thesis by (simp only: simp_thms)
qed

section \<open>Lookup by id\<close>

lemma three_halves: "(3 / 2 :: rat) \<notin> \<int>"
proof
  assume "(3 / 2 :: rat) \<in> \<int>"
  then obtain k :: int where "(3 / 2 :: rat) = of_int k" by (rule Ints_cases)
  then have "(of_int 3 :: rat) = of_int (2 * k)" by simp
  then have "3 = 2 * k" by (simp only: of_int_eq_iff)
  then show False by presburger
qed

lemma to_number_Nil: "to_number [] = Num 0"
  by (simp add: to_number_def trim_def)

lemma invalid_id_iff: "invalid_id s \<longleftrightarrow> \<not> positive_number s"
proof (cases "s = []")
  case True
  then show ?thesis by (simp add: invalid_id_def positive_number_def to_number_Nil)
next
  case False
  then show ?thesis
    by (cases "to_number s")
       (simp_all add: invalid_id_def positive_number_def isNaN_def le_zero_def not_less)
qed

lemma getUserById_InvalidInput_iff: "getUserById db s = Inl InvalidInput \<longleftrightarrow> invalid_id s"
  by (simp add: getUserById_result split: option.splits)

lemma getById_status:
  "getUserById db s = Inl InvalidInput \<Longrightarrow> status (getById db s) = 400"
  "getUserById db s = Inr None \<Longrightarrow> status (getById db s) = 404"
  "getUserById db s = Inr (Some u) \<Longrightarrow> status (getById db s) = 200"
  by (simp_all add: getById_def)

lemma find_None_id: "i \<notin> user_id ` set xs \<Longrightarrow> find (\<lambda>r. user_id r = i) xs = None"
  by (auto simp: find_None_iff)

lemma getUserById_Some_public:
  "getUserById db s = Inr (Some u) \<Longrightarrow> \<exists>r\<in>set (users db). u = public_view r"
  by (auto simp: getUserById_result select_public find_Some_iff split: if_splits option.splits)

text \<open>
  C6 as stated fails: \<^verbatim>\<open>'1.5'\<close> is not a positive integer, yet it passes the check (it is a
  positive number, which is all the guard asks for), \<^verbatim>\<open>parseInt\<close> truncates it to 1 and the
  user with id 1 is returned.
\<close>

theorem fractional_id_accepted_counterexample:
  "to_number ''1.5'' = Num (3 / 2) \<and> (3 / 2 :: rat) \<notin> \<int>
   \<and> getUserById two_users ''1.5''
       = Inr (Some [(''id'', JNum 1), (''nome'', JStr ''Ana''), (''email'', JStr ''ana@x.com''),
                    (''foto'', JNull), (''papel'', JStr ''PROFESSOR''), (''createdAt'', JDate 10)])
   \<and> status (getById two_users ''1.5'') = 200"
proof -
  have n: "to_number ''1.5'' = Num (3 / 2)" by (simp add: js_eval)
  note i = three_halves
  have g: "getUserById two_users ''1.5''
       = Inr (Some [(''id'', JNum 1), (''nome'', JStr ''Ana''), (''email'', JStr ''ana@x.com''),
                    (''foto'', JNull), (''papel'', JStr ''PROFESSOR''), (''createdAt'', JDate 10)])"
    by (simp add: js_eval db_eval svc_eval sample)
  then have h: "status (getById two_users ''1.5'') = 200" by (simp add: getById_def)
  from n i g h show ?thesis by (simp only: simp_thms)
qed




text \<open>
  C6, as amended. \<^verbatim>\<open>getUserById\<close> fails with \<open>InvalidInput\<close> exactly for the route segments that
  do not denote a positive number (empty, not numeric, zero, negative), and the controller
  answers 400 for them. A positive integer written in decimal, within the range of the key,
  passes the check and is looked up by its value: with no such row the result is the
  \<^verbatim>\<open>null\<close> sentinel, for which the controller answers 404, so the two outcomes differ; a
  user that is found comes back without \<^verbatim>\<open>senha\<close>, with status 200. In general a segment
  that denotes a positive number is looked up by what \<^verbatim>\<open>parseInt\<close> reads at its start.
\<close>

theorem getUserById_outcomes:
  "(getUserById db s = Inl InvalidInput \<longleftrightarrow> \<not> positive_number s)
   \<and> (\<not> positive_number s \<longrightarrow> status (getById db s) = 400)
   \<and> (0 < n \<and> n \<le> 2147483647
        \<longrightarrow> getUserById db (dec n)
            = Inr (map_option public_view (find (\<lambda>r. user_id r = int n) (users db))))
   \<and> (0 < n \<and> n \<le> 2147483647 \<and> int n \<notin> user_id ` set (users db)
        \<longrightarrow> getUserById db (dec n) = Inr None \<and> status (getById db (dec n)) = 404)
   \<and> (getUserById db s = Inr None \<longrightarrow> status (getById db s) = 404)
   \<and> (\<forall>u. getUserById db s = Inr (Some u)
         \<longrightarrow> ''senha'' \<notin> keys u \<and> status (getById db s) = 200)
   \<and> (positive_number s \<and> parseInt s = Some i \<and> - 2147483648 \<le> i \<and> i \<le> 2147483647
        \<longrightarrow> getUserById db s
            = Inr (map_option public_view (find (\<lambda>r. user_id r = i) (users db))))"
proof (intro conjI impI allI)
  show "getUserById db s = Inl InvalidInput \<longleftrightarrow> \<not> positive_number s"
    by (simp add: getUserById_InvalidInput_iff invalid_id_iff)
next
  assume "\<not> positive_number s"
  then have "getUserById db s = Inl InvalidInput"
    by (simp add: getUserById_InvalidInput_iff invalid_id_iff)
  then show "status (getById db s) = 400" by (rule getById_status)
next
  assume "0 < n \<and> n \<le> 2147483647"
  then show "getUserById db (dec n)
            = Inr (map_option public_view (find (\<lambda>r. user_id r = int n) (users db)))"
    by (intro getUserById_dec) simp_all
next
  assume h: "0 < n \<and> n \<le> 2147483647 \<and> int n \<notin> user_id ` set (users db)"
  then have "getUserById db (dec n)
            = Inr (map_option public_view (find (\<lambda>r. user_id r = int n) (users db)))"
    by (intro getUserById_dec) simp_all
  with h show g: "getUserById db (dec n) = Inr None" by (simp add: find_None_id)
  then show "status (getById db (dec n)) = 404" by (rule getById_status)
next
  assume "getUserById db s = Inr None"
  then show "status (getById db s) = 404" by (rule getById_status)
next
  fix u assume u: "getUserById db s = Inr (Some u)"
  then obtain r where "u = public_view r" using getUserById_Some_public by blast
  then show "''senha'' \<notin> keys u" by (simp add: keys_def public_view_def)
  from u show "status (getById db s) = 200" by (rule getById_status)
next
  assume "positive_number s \<and> parseInt s = Some i \<and> - 2147483648 \<le> i \<and> i \<le> 2147483647"
  then show "getUserById db s
            = Inr (map_option public_view (find (\<lambda>r. user_id r = i) (users db)))"
    by (simp add: getUserById_result invalid_id_iff id_key_def select_public)
qed

theorem getUserById_outcomes_witness:
  "getUserById two_users ''abc'' = Inl InvalidInput \<and> status (getById two_users ''abc'') = 400
   \<and> getUserById two_users ''0'' = Inl InvalidInput
   \<and> getUserById two_users ''999999'' = Inr None \<and> status (getById two_users ''999999'') = 404
   \<and> getUserById two_users ''2'' = Inr (Some (public_view bia))
   \<and> ''senha'' \<notin> keys (public_view bia) \<and> status (getById two_users ''2'') = 200"
proof -
  note main = getUserById_outcomes
  have np: "\<not> positive_number ''abc''" "\<not> positive_number ''0''"
    by (simp_all add: positive_number_def js_eval)
  from main [where db = two_users and s = "''abc''", THEN conjunct1, THEN iffD2, OF np(1)]
  have a1: "getUserById two_users ''abc'' = Inl InvalidInput" .
  from main [where db = two_users and s = "''abc''", THEN conjunct2, THEN conjunct1,
             rule_format, OF np(1)]
  have a2: "status (getById two_users ''abc'') = 400" .
  from main [where db = two_users and s = "''0''", THEN conjunct1, THEN iffD2, OF np(2)]
  have z: "getUserById two_users ''0'' = Inl InvalidInput" .
  have d: "dec 999999 = ''999999''" "dec 2 = ''2''"
    by (simp_all add: dec.simps char_of_eq_iff)
  have h1: "(0::nat) < 999999 \<and> (999999::nat) \<le> 2147483647
            \<and> int 999999 \<notin> user_id ` set (users two_users)"
    by (simp add: sample)
  from main [where db = two_users and n = 999999, THEN conjunct2, THEN conjunct2, THEN conjunct2,
             THEN conjunct1, rule_format, OF h1]
  have b: "getUserById two_users ''999999'' = Inr None \<and> status (getById two_users ''999999'') = 404"
    unfolding d .
  have h2: "(0::nat) < 2 \<and> (2::nat) \<le> 2147483647" by simp
  from main [where db = two_users and n = 2, THEN conjunct2, THEN conjunct2, THEN conjunct1,
             rule_format, OF h2]
  have "getUserById two_users ''2''
            = Inr (map_option public_view (find (\<lambda>r. user_id r = int 2) (users two_users)))"
    unfolding d .
  then have c: "getUserById two_users ''2'' = Inr (Some (public_view bia))"
    by (simp add: sample)
  from main [where db = two_users and s = "''2''", THEN conjunct2, THEN conjunct2, THEN conjunct2,
             THEN conjunct2, THEN conjunct2, THEN conjunct1, rule_format, OF c]
  have e: "''senha'' \<notin> keys (public_view bia) \<and> status (getById two_users ''2'') = 200" .
  from a1 a2 z b c e show ?thesis by (simp only: simp_thms)
qed

section \<open>Deletion\<close>

lemma find_distinct_id:
  "distinct (map user_id xs) \<Longrightarrow> r \<in> set xs \<Longrightarrow> find (\<lambda>x. user_id x = user_id r) xs = Some r"
  by (induction xs) (auto simp: rev_image_eqI)

lemma find_filter_removed: "find (\<lambda>x. user_id x = i) (filter (\<lambda>x. user_id x \<noteq> i) xs) = None"
  by (simp add: find_None_iff)

lemma id_key_in_range:
  "- 2147483648 \<le> i \<Longrightarrow> i \<le> 2147483647 \<Longrightarrow> id_key (Some i) = Some i"
  by (simp add: id_key_def)

lemma row_key_in_range:
  "table_ok db \<Longrightarrow> r \<in> set (users db) \<Longrightarrow> id_key (Some (user_id r)) = Some (user_id r)"
  by (rule id_key_in_range) (auto simp: table_ok_def)

lemma select_snapshot:
  "select [''id'', ''nome'', ''email''] (row_obj r)
     = [(''id'', JNum (user_id r)), (''nome'', JStr (nome r)), (''email'', JStr (email r))]"
  by (simp add: select_def row_obj_def)

text \<open>
  C7 as stated fails in the validation: \<^verbatim>\<open>'2.7'\<close> is not a positive integer, yet \<^verbatim>\<open>deleteUser\<close>
  accepts it, truncates it to 2 and deletes the user with id 2.
\<close>

theorem fractional_id_deletes_counterexample:
  "to_number ''2.7'' = Num (27 / 10)
   \<and> deleteUser two_users ''2.7''
       = (\<lparr>users = [ana], id_seq = 2\<rparr>,
          Inr [(''id'', JNum 2), (''nome'', JStr ''Bia''), (''email'', JStr ''bia@x.com'')])"
proof -
  have n: "to_number ''2.7'' = Num (27 / 10)" by (simp add: js_eval)
  have d: "deleteUser two_users ''2.7''
       = (\<lparr>users = [ana], id_seq = 2\<rparr>,
          Inr [(''id'', JNum 2), (''nome'', JStr ''Bia''), (''email'', JStr ''bia@x.com'')])"
    by (simp add: js_eval db_eval svc_eval sample)
  from n d show ?thesis by (simp only: simp_thms)
qed

text \<open>
  C7, as amended. \<^verbatim>\<open>deleteUser\<close> fails with \<open>InvalidInput\<close> for a route segment that does not
  denote a positive number, and with \<open>NotFound\<close> when the segment passes the check and no row
  has the id it parses to; in both cases the table is unchanged. When a row has that id, the
  row is removed, the result is exactly the snapshot \<^verbatim>\<open>{id, nome, email}\<close> of the row as it
  was before the deletion, and \<^verbatim>\<open>getUserById\<close> on the same segment then returns the
  \<^verbatim>\<open>null\<close> sentinel, answered with 404.
\<close>

theorem deleteUser_outcomes:
  "(\<not> positive_number s \<longrightarrow> deleteUser db s = (db, Inl InvalidInput))
   \<and> (positive_number s \<and> parseInt s = Some i \<and> - 2147483648 \<le> i \<and> i \<le> 2147483647
        \<and> i \<notin> user_id ` set (users db)
      \<longrightarrow> deleteUser db s = (db, Inl NotFound))
   \<and> (table_ok db \<and> positive_number s \<and> r \<in> set (users db) \<and> parseInt s = Some (user_id r)
      \<longrightarrow> deleteUser db s
            = (db\<lparr>users := filter (\<lambda>x. user_id x \<noteq> user_id r) (users db)\<rparr>,
               Inr [(''id'', JNum (user_id r)), (''nome'', JStr (nome r)), (''email'', JStr (email r))])
          \<and> r \<notin> set (users (fst (deleteUser db s)))
          \<and> getUserById (fst (deleteUser db s)) s = Inr None
          \<and> status (getById (fst (deleteUser db s)) s) = 404)"
proof (intro conjI impI)
  assume "\<not> positive_number s"
  then show "deleteUser db s = (db, Inl InvalidInput)"
    by (simp add: deleteUser_result invalid_id_iff)
next
  assume "positive_number s \<and> parseInt s = Some i \<and> - 2147483648 \<le> i \<and> i \<le> 2147483647
        \<and> i \<notin> user_id ` set (users db)"
  then show "deleteUser db s = (db, Inl NotFound)"
    by (simp add: deleteUser_result invalid_id_iff id_key_in_range find_None_id)
next
  assume h: "table_ok db \<and> positive_number s \<and> r \<in> set (users db) \<and> parseInt s = Some (user_id r)"
  then have "table_ok db" "r \<in> set (users db)" by simp_all
  then have "id_key (Some (user_id r)) = Some (user_id r)" by (rule row_key_in_range)
  with h have k: "id_key (parseInt s) = Some (user_id r)" by simp
  from h have f: "find (\<lambda>x. user_id x = user_id r) (users db) = Some r"
    by (intro find_distinct_id) (simp_all add: table_ok_def)
  from h k f show d: "deleteUser db s
            = (db\<lparr>users := filter (\<lambda>x. user_id x \<noteq> user_id r) (users db)\<rparr>,
               Inr [(''id'', JNum (user_id r)), (''nome'', JStr (nome r)), (''email'', JStr (email r))])"
    by (simp add: deleteUser_result invalid_id_iff select_snapshot)
  then show "r \<notin> set (users (fst (deleteUser db s)))" by simp
  from h k show g: "getUserById (fst (deleteUser db s)) s = Inr None"
    by (simp add: d getUserById_result invalid_id_iff find_filter_removed)
  then show "status (getById (fst (deleteUser db s)) s) = 404" by (rule getById_status)
qed

theorem deleteUser_outcomes_witness:
  "deleteUser two_users ''abc'' = (two_users, Inl InvalidInput)
   \<and> deleteUser two_users ''99999'' = (two_users, Inl NotFound)
   \<and> deleteUser two_users ''2''
       = (\<lparr>users = [ana], id_seq = 2\<rparr>,
          Inr [(''id'', JNum 2), (''nome'', JStr ''Bia''), (''email'', JStr ''bia@x.com'')])
   \<and> getUserById (fst (deleteUser two_users ''2'')) ''2'' = Inr None
   \<and> status (getById (fst (deleteUser two_users ''2'')) ''2'') = 404"
proof -
  note main = deleteUser_outcomes
  have np: "\<not> positive_number ''abc''" by (simp add: positive_number_def js_eval)
  from main [where db = two_users and s = "''abc''", THEN conjunct1, rule_format, OF np]
  have a: "deleteUser two_users ''abc'' = (two_users, Inl InvalidInput)" .
  have h1: "positive_number ''99999'' \<and> parseInt ''99999'' = Some 99999
            \<and> - 2147483648 \<le> (99999::int) \<and> (99999::int) \<le> 2147483647
            \<and> 99999 \<notin> user_id ` set (users two_users)"
    by (simp add: positive_number_def js_eval sample)
  from main [where db = two_users and s = "''99999''" and i = 99999, THEN conjunct2, THEN conjunct1,
             rule_format, OF h1]
  have b: "deleteUser two_users ''99999'' = (two_users, Inl NotFound)" .
  have t: "table_ok two_users" by (simp add: table_ok_def sample)
  have p: "positive_number ''2''" "parseInt ''2'' = Some (user_id bia)"
    by (simp_all add: positive_number_def js_eval bia_def)
  have m: "bia \<in> set (users two_users)" by (simp add: two_users_def)
  from t p m have h2: "table_ok two_users \<and> positive_number ''2'' \<and> bia \<in> set (users two_users)
            \<and> parseInt ''2'' = Some (user_id bia)"
    by (simp only: simp_thms)
  note c = main [where db = two_users and s = "''2''" and r = bia, THEN conjunct2, THEN conjunct2,
             rule_format, OF h2]
  from c [THEN conjunct1]
  have c1: "deleteUser two_users ''2''
       = (\<lparr>users = [ana], id_seq = 2\<rparr>,
          Inr [(''id'', JNum 2), (''nome'', JStr ''Bia''), (''email'', JStr ''bia@x.com'')])"
    by (simp add: sample)
  from a b c1 c [THEN conjunct2, THEN conjunct2] show ?thesis by (simp only: simp_thms)
qed

section \<open>Update: the email check and the order of the checks\<close>

lemma same_id_same_row:
  "distinct (map user_id xs) \<Longrightarrow> x \<in> set xs \<Longrightarrow> y \<in> set xs \<Longrightarrow> user_id x = user_id y \<Longrightarrow> x = y"
  by (auto simp: distinct_map dest: inj_onD)

lemma updateUser_row:
  assumes "table_ok db" "\<not> invalid_id s" "r \<in> set (users db)" "parseInt s = Some (user_id r)"
  shows "updateUser db now s d =
           (if truthy (get_prop d ''email'') \<and> get_prop d ''email'' \<noteq> JStr (email r)
            then (if \<not> is_text (get_prop d ''email'') then (db, Inl Unexpected)
                  else if text_of (get_prop d ''email'') \<in> email ` set (users db)
                  then (db, Inl EmailInUse)
                  else prisma_update db now (parseInt s) (dadosAtualizacao d)
                         (public_fields @ [''updatedAt'']))
            else prisma_update db now (parseInt s) (dadosAtualizacao d)
                   (public_fields @ [''updatedAt'']))"
proof -
  from assms have k: "id_key (parseInt s) = Some (user_id r)" by (simp add: row_key_in_range)
  from assms have f: "find (\<lambda>x. user_id x = user_id r) (users db) = Some r"
    by (intro find_distinct_id) (simp_all add: table_ok_def)
  from assms(2) k f show ?thesis by (simp add: updateUser_result)
qed

lemma prisma_update_not_EmailInUse:
  "snd (prisma_update db now k upd sel) \<noteq> Inl EmailInUse"
  by (simp add: prisma_update_def split: option.splits)

lemma updateUser_EmailInUse_iff:
  assumes "table_ok db"
  shows "snd (updateUser db now s d) = Inl EmailInUse \<longleftrightarrow>
     \<not> invalid_id s
     \<and> (\<exists>r e. r \<in> set (users db) \<and> parseInt s = Some (user_id r)
              \<and> get_prop d ''email'' = JStr e \<and> e \<noteq> email r
              \<and> (\<exists>r'. r' \<in> set (users db) \<and> user_id r' \<noteq> user_id r \<and> email r' = e))"
  (is "?L \<longleftrightarrow> ?R")
proof
  assume l: ?L
  then have v: "\<not> invalid_id s" by (auto simp: updateUser_result split: if_splits)
  with l obtain i where i: "id_key (parseInt s) = Some i"
    by (cases "id_key (parseInt s)") (auto simp: updateUser_result)
  then have pi: "parseInt s = Some i" by (auto simp: id_key_def split: option.splits if_splits)
  from l v i obtain r where f: "find (\<lambda>r. user_id r = i) (users db) = Some r"
    by (cases "find (\<lambda>r. user_id r = i) (users db)") (auto simp: updateUser_result)
  then have r: "r \<in> set (users db)" "user_id r = i" by (auto simp: find_Some_iff)
  from l v i f have e: "truthy (get_prop d ''email'')" "get_prop d ''email'' \<noteq> JStr (email r)"
    "is_text (get_prop d ''email'')" "text_of (get_prop d ''email'') \<in> email ` set (users db)"
    by (auto simp: updateUser_result prisma_update_not_EmailInUse split: if_splits)
  from e(3) obtain a where a: "get_prop d ''email'' = JStr a" by (auto simp: is_text_iff)
  with e(4) obtain r' where r': "r' \<in> set (users db)" "email r' = a" by (auto simp: text_of_def)
  from a e(2) have ne: "a \<noteq> email r" by simp
  with r' have "r' \<noteq> r" by auto
  with same_id_same_row[of "users db" r' r] assms r r' have "user_id r' \<noteq> user_id r"
    by (auto simp: table_ok_def)
  with v r pi a ne r' show ?R by blast
next
  assume ?R
  then obtain r e r' where v: "\<not> invalid_id s" and r: "r \<in> set (users db)" "parseInt s = Some (user_id r)"
    and e: "get_prop d ''email'' = JStr e" "e \<noteq> email r"
    and r': "r' \<in> set (users db)" "email r' = e"
    by blast
  from assms r' have "e \<noteq> []" by (auto simp: table_ok_def)
  moreover from r' have "e \<in> email ` set (users db)" by auto
  ultimately show ?L using e
    by (simp add: updateUser_row[OF assms v r] is_text_def text_of_def)
qed

lemma updateUser_failure_keeps_table:
  "snd (updateUser db now s d) = Inl err \<Longrightarrow> fst (updateUser db now s d) = db"
  by (auto simp: updateUser_result prisma_update_def split: if_splits option.splits)

lemma five_halves: "(5 / 2 :: rat) \<notin> \<int>"
proof
  assume "(5 / 2 :: rat) \<in> \<int>"
  then obtain k :: int where "(5 / 2 :: rat) = of_int k" by (rule Ints_cases)
  then have "(of_int 5 :: rat) = of_int (2 * k)" by simp
  then have "5 = 2 * k" by (simp only: of_int_eq_iff)
  then show False by presburger
qed

text \<open>
  C4 as stated fails where it speaks of a valid id and of the row for the id: \<^verbatim>\<open>'2.5'\<close> is
  not a positive integer, yet \<^verbatim>\<open>updateUser\<close> accepts it, reads it as 2 and fails with
  \<open>EmailInUse\<close> against the row of user 2; and \<^verbatim>\<open>'7.5'\<close> gives \<open>NotFound\<close>, not
  \<open>InvalidInput\<close>.
\<close>

theorem fractional_id_updates_counterexample:
  "to_number ''2.5'' = Num (5 / 2) \<and> (5 / 2 :: rat) \<notin> \<int>
   \<and> updateUser two_users 30 ''2.5'' [(''email'', JStr ''ana@x.com'')] = (two_users, Inl EmailInUse)
   \<and> updateUser two_users 30 ''7.5'' [(''email'', JStr ''ana@x.com'')] = (two_users, Inl NotFound)"
proof -
  have n: "to_number ''2.5'' = Num (5 / 2)" by (simp add: js_eval)
  have a: "updateUser two_users 30 ''2.5'' [(''email'', JStr ''ana@x.com'')] = (two_users, Inl EmailInUse)"
    by (simp add: js_eval db_eval svc_eval sample)
  have b: "updateUser two_users 30 ''7.5'' [(''email'', JStr ''ana@x.com'')] = (two_users, Inl NotFound)"
    by (simp add: js_eval db_eval svc_eval sample)
  from n five_halves a b show ?thesis by (simp only: simp_thms)
qed

text \<open>
  C4, as amended. On a table that satisfies its constraints, \<^verbatim>\<open>updateUser\<close> fails with
  \<open>EmailInUse\<close> exactly when the route segment denotes a positive number (the id check of
  the code, which does not ask for an integer), a row has the id that \<^verbatim>\<open>parseInt\<close> reads from
  the segment, the payload's email is text different from that row's email, and another row
  holds it; in particular never when the payload's email is the row's own. The checks run in
  order: a segment that fails the id check gives \<open>InvalidInput\<close> whatever the table and the
  payload; one that passes it and names no row gives \<open>NotFound\<close> whatever the payload's
  email; and after any failure the table is the one before the call.
\<close>

theorem update_email_in_use_and_check_order:
  "(table_ok db \<longrightarrow>
      (snd (updateUser db now s d) = Inl EmailInUse \<longleftrightarrow>
         positive_number s
         \<and> (\<exists>r e. r \<in> set (users db) \<and> parseInt s = Some (user_id r)
                  \<and> get_prop d ''email'' = JStr e \<and> e \<noteq> email r
                  \<and> (\<exists>r'. r' \<in> set (users db) \<and> user_id r' \<noteq> user_id r \<and> email r' = e))))
   \<and> (table_ok db \<and> r \<in> set (users db) \<and> parseInt s = Some (user_id r)
        \<and> get_prop d ''email'' = JStr (email r)
      \<longrightarrow> snd (updateUser db now s d) \<noteq> Inl EmailInUse)
   \<and> (\<not> positive_number s \<longrightarrow> updateUser db now s d = (db, Inl InvalidInput))
   \<and> (positive_number s \<and> parseInt s = Some i \<and> - 2147483648 \<le> i \<and> i \<le> 2147483647
        \<and> i \<notin> user_id ` set (users db)
      \<longrightarrow> updateUser db now s d = (db, Inl NotFound))
   \<and> (\<forall>err. snd (updateUser db now s d) = Inl err \<longrightarrow> fst (updateUser db now s d) = db)"
proof (intro conjI impI allI)
  assume "table_ok db"
  then show "snd (updateUser db now s d) = Inl EmailInUse \<longleftrightarrow>
         positive_number s
         \<and> (\<exists>r e. r \<in> set (users db) \<and> parseInt s = Some (user_id r)
                  \<and> get_prop d ''email'' = JStr e \<and> e \<noteq> email r
                  \<and> (\<exists>r'. r' \<in> set (users db) \<and> user_id r' \<noteq> user_id r \<and> email r' = e))"
    by (simp only: updateUser_EmailInUse_iff invalid_id_iff not_not)
next
  assume h: "table_ok db \<and> r \<in> set (users db) \<and> parseInt s = Some (user_id r)
        \<and> get_prop d ''email'' = JStr (email r)"
  show "snd (updateUser db now s d) \<noteq> Inl EmailInUse"
  proof (cases "invalid_id s")
    case True
    then show ?thesis by (simp add: updateUser_def)
  next
    case False
    with h show ?thesis
      by (simp add: updateUser_row[where r = r] prisma_update_not_EmailInUse)
  qed
next
  assume "\<not> positive_number s"
  then show "updateUser db now s d = (db, Inl InvalidInput)"
    by (simp add: updateUser_def invalid_id_iff)
next
  assume "positive_number s \<and> parseInt s = Some i \<and> - 2147483648 \<le> i \<and> i \<le> 2147483647
        \<and> i \<notin> user_id ` set (users db)"
  then show "updateUser db now s d = (db, Inl NotFound)"
    by (simp add: updateUser_result invalid_id_iff id_key_in_range find_None_id)
next
  fix err assume "snd (updateUser db now s d) = Inl err"
  then show "fst (updateUser db now s d) = db" by (rule updateUser_failure_keeps_table)
qed

theorem update_email_in_use_and_check_order_witness:
  "updateUser two_users 30 ''2'' [(''email'', JStr ''ana@x.com'')] = (two_users, Inl EmailInUse)
   \<and> snd (updateUser two_users 30 ''2'' [(''email'', JStr ''bia@x.com'')]) \<noteq> Inl EmailInUse
   \<and> updateUser two_users 30 ''abc'' [(''email'', JStr ''ana@x.com'')] = (two_users, Inl InvalidInput)
   \<and> updateUser two_users 30 ''99999'' [(''email'', JStr ''ana@x.com'')] = (two_users, Inl NotFound)"
proof -
  note main = update_email_in_use_and_check_order
  let ?d = "[(''email'', JStr ''ana@x.com'')]"
  have t: "table_ok two_users" by (simp add: table_ok_def sample)
  have v: "positive_number ''2''" "parseInt ''2'' = Some (user_id bia)"
    by (simp_all add: positive_number_def js_eval bia_def)
  have m: "bia \<in> set (users two_users)" "ana \<in> set (users two_users)"
    by (simp_all add: two_users_def)
  have e: "get_prop ?d ''email'' = JStr ''ana@x.com''" "''ana@x.com'' \<noteq> email bia"
    "user_id ana \<noteq> user_id bia" "email ana = ''ana@x.com''"
    by (simp_all add: get_prop_def ana_def bia_def)
  from v m e have rhs: "positive_number ''2''
         \<and> (\<exists>r e. r \<in> set (users two_users) \<and> parseInt ''2'' = Some (user_id r)
                  \<and> get_prop ?d ''email'' = JStr e \<and> e \<noteq> email r
                  \<and> (\<exists>r'. r' \<in> set (users two_users) \<and> user_id r' \<noteq> user_id r \<and> email r' = e))"
    by blast
  from main [where db = two_users and s = "''2''" and d = ?d and now = 30, THEN conjunct1,
             rule_format, OF t, THEN iffD2, OF rhs]
  have a1: "snd (updateUser two_users 30 ''2'' ?d) = Inl EmailInUse" .
  from main [where db = two_users and s = "''2''" and d = ?d and now = 30, THEN conjunct2,
             THEN conjunct2, THEN conjunct2, THEN conjunct2, rule_format, OF a1]
  have a2: "fst (updateUser two_users 30 ''2'' ?d) = two_users" .
  from a1 a2 have a: "updateUser two_users 30 ''2'' ?d = (two_users, Inl EmailInUse)"
    by (simp add: prod_eq_iff)
  have own: "table_ok two_users \<and> bia \<in> set (users two_users) \<and> parseInt ''2'' = Some (user_id bia)
        \<and> get_prop [(''email'', JStr ''bia@x.com'')] ''email'' = JStr (email bia)"
    using t v m by (simp add: get_prop_def bia_def)
  from main [where db = two_users and s = "''2''" and r = bia and now = 30
               and d = "[(''email'', JStr ''bia@x.com'')]",
             THEN conjunct2, THEN conjunct1, rule_format, OF own]
  have b: "snd (updateUser two_users 30 ''2'' [(''email'', JStr ''bia@x.com'')]) \<noteq> Inl EmailInUse" .
  have inv: "\<not> positive_number ''abc''" by (simp add: positive_number_def js_eval)
  from main [where db = two_users and s = "''abc''" and d = ?d and now = 30, THEN conjunct2,
             THEN conjunct2, THEN conjunct1, rule_format, OF inv]
  have c: "updateUser two_users 30 ''abc'' ?d = (two_users, Inl InvalidInput)" .
  have nf: "positive_number ''99999'' \<and> parseInt ''99999'' = Some 99999
        \<and> - 2147483648 \<le> (99999::int) \<and> (99999::int) \<le> 2147483647
        \<and> 99999 \<notin> user_id ` set (users two_users)"
    by (simp add: positive_number_def js_eval sample)
  from main [where db = two_users and s = "''99999''" and d = ?d and now = 30 and i = 99999,
             THEN conjunct2, THEN conjunct2, THEN conjunct2, THEN conjunct1, rule_format, OF nf]
  have d: "updateUser two_users 30 ''99999'' ?d = (two_users, Inl NotFound)" .
  from a b c d show ?thesis by (simp only: simp_thms)
qed

section \<open>Update: what is merged\<close>

lemma select_updated:
  "select (public_fields @ [''updatedAt'']) (row_obj r) = public_view r @ [(''updatedAt'', JDate (updatedAt r))]"
  by (simp add: select_def public_fields_def row_obj_def public_view_def)

lemma updatable_Nil: "updatable []"
  by (simp add: updatable_def get_prop_Nil)

lemma dadosAtualizacao_Nil: "dadosAtualizacao [] = []"
  by (simp add: dadosAtualizacao_def get_prop_Nil)

lemma other_emails:
  assumes "distinct (map email xs)" "r \<in> set xs"
  shows "email r \<notin> email ` set (filter (\<lambda>x. user_id x \<noteq> user_id r) xs)"
proof
  assume "email r \<in> email ` set (filter (\<lambda>x. user_id x \<noteq> user_id r) xs)"
  then obtain x where x: "x \<in> set xs" "user_id x \<noteq> user_id r" "email x = email r" by auto
  from assms(1) have "inj_on email (set xs)" by (simp add: distinct_map)
  with x assms(2) have "x = r" by (auto dest: inj_onD)
  with x show False by simp
qed

lemma map_replace_same:
  assumes "distinct (map user_id xs)" "r \<in> set xs"
  shows "map (\<lambda>x. if user_id x = user_id r then r else x) xs = xs"
proof (rule map_idI)
  fix x assume "x \<in> set xs"
  with assms show "(if user_id x = user_id r then r else x) = x"
    by (auto dest: same_id_same_row)
qed

lemma updateUser_ok:
  assumes "table_ok db" "\<not> invalid_id s" "r \<in> set (users db)" "parseInt s = Some (user_id r)"
    and "updatable d"
    and "\<forall>e. get_prop d ''email'' = JStr e \<and> e \<noteq> email r \<longrightarrow> e \<notin> email ` set (users db)"
  shows "updateUser db now s d
           = (db\<lparr>users := map (\<lambda>x. if user_id x = user_id r then merged_row now d r else x) (users db)\<rparr>,
              Inr (public_view (merged_row now d r)
                   @ [(''updatedAt'', JDate (updatedAt (merged_row now d r)))]))"
proof -
  let ?E = "get_prop d ''email''"
  from assms have k: "id_key (parseInt s) = Some (user_id r)" by (simp add: row_key_in_range)
  from assms have f: "find (\<lambda>x. user_id x = user_id r) (users db) = Some r"
    by (intro find_distinct_id) (simp_all add: table_ok_def)
  from assms(1,3) have own: "email r \<notin> email ` set (filter (\<lambda>x. user_id x \<noteq> user_id r) (users db))"
    by (intro other_emails) (simp_all add: table_ok_def)
  have tx: "truthy ?E \<Longrightarrow> ?E = JStr (text_of ?E)"
    using assms(5) by (cases ?E) (simp_all add: updatable_def is_text_def text_of_def)
  have free: "email (merged_row now d r)
                \<notin> email ` set (filter (\<lambda>x. user_id x \<noteq> user_id r) (users db))"
  proof (cases "truthy ?E \<and> text_of ?E \<noteq> email r")
    case True
    with tx assms(6) have "text_of ?E \<notin> email ` set (users db)" by metis
    with True show ?thesis by (auto simp: merged_row_simps)
  next
    case False
    with own show ?thesis by (auto simp: merged_row_simps)
  qed
  have upd: "prisma_update db now (parseInt s) (dadosAtualizacao d) (public_fields @ [''updatedAt''])
     = (db\<lparr>users := map (\<lambda>x. if user_id x = user_id r then merged_row now d r else x) (users db)\<rparr>,
        Inr (public_view (merged_row now d r)
             @ [(''updatedAt'', JDate (updatedAt (merged_row now d r)))]))"
    using assms(5) free by (simp add: prisma_update_dados[OF k f] select_updated)
  show ?thesis
  proof (cases "truthy ?E \<and> ?E \<noteq> JStr (email r)")
    case False
    then have c: "(truthy ?E \<and> ?E \<noteq> JStr (email r)) = False" by simp
    show ?thesis by (simp only: updateUser_row[OF assms(1-4)] c if_False upd)
  next
    case True
    then have c: "(truthy ?E \<and> ?E \<noteq> JStr (email r)) = True" by simp
    from True tx have e: "?E = JStr (text_of ?E)" "text_of ?E \<noteq> email r" by auto
    from e(1) have "is_text ?E" unfolding is_text_iff by (rule exI)
    moreover from e assms(6) have "text_of ?E \<notin> email ` set (users db)" by metis
    ultimately have c2: "(\<not> is_text ?E) = False" "(text_of ?E \<in> email ` set (users db)) = False"
      by simp_all
    show ?thesis by (simp only: updateUser_row[OF assms(1-4)] c c2 if_True if_False upd)
  qed
qed

text \<open>
  C5 as stated fails: a name explicitly provided as the empty string is not merged, and
  since the service then hands an empty data object to the client, nothing is written and
  \<^verbatim>\<open>updatedAt\<close> is not refreshed; the update succeeds and the table is unchanged.
\<close>

theorem empty_name_not_merged_counterexample:
  "get_prop [(''nome'', JStr [])] ''nome'' = JStr []
   \<and> updateUser two_users 30 ''1'' [(''nome'', JStr [])]
       = (two_users,
          Inr [(''id'', JNum 1), (''nome'', JStr ''Ana''), (''email'', JStr ''ana@x.com''),
               (''foto'', JNull), (''papel'', JStr ''PROFESSOR''), (''createdAt'', JDate 10),
               (''updatedAt'', JDate 10)])"
  by (simp add: js_eval db_eval svc_eval sample)

text \<open>
  C5, as amended. Take a row of a table that satisfies its constraints, addressed by a route
  segment that passes the id check, and a payload whose \<^verbatim>\<open>nome\<close>, \<^verbatim>\<open>email\<close>, \<^verbatim>\<open>senha\<close> and
  \<^verbatim>\<open>papel\<close> are each absent, falsy or text, whose \<^verbatim>\<open>foto\<close> is absent, \<^verbatim>\<open>null\<close> or text, and whose
  email, when it differs from the row's, is held by no row. Then \<^verbatim>\<open>updateUser\<close> succeeds and
  replaces that row and no other: \<^verbatim>\<open>nome\<close>, \<^verbatim>\<open>email\<close>, \<^verbatim>\<open>senha\<close> and \<^verbatim>\<open>papel\<close> take the
  payload's value when it is non-empty text and keep their value when it is absent or falsy
  (the empty string and \<^verbatim>\<open>null\<close> included); \<^verbatim>\<open>foto\<close> takes the payload's value whenever the
  property is present, \<^verbatim>\<open>null\<close> included, and keeps its value when absent; the id and
  \<^verbatim>\<open>createdAt\<close> are kept; \<^verbatim>\<open>updatedAt\<close> becomes the time of the call when the service hands
  at least one field to the client, and otherwise the row stays as it is. An update with an
  empty body succeeds and changes nothing, \<^verbatim>\<open>updatedAt\<close> included.
\<close>

theorem update_merges_non_empty_fields:
  "table_ok db \<and> positive_number s \<and> r \<in> set (users db) \<and> parseInt s = Some (user_id r)
   \<and> (truthy (get_prop d ''nome'') \<longrightarrow> is_text (get_prop d ''nome''))
   \<and> (truthy (get_prop d ''email'') \<longrightarrow> is_text (get_prop d ''email''))
   \<and> (truthy (get_prop d ''senha'') \<longrightarrow> is_text (get_prop d ''senha''))
   \<and> (truthy (get_prop d ''papel'') \<longrightarrow> is_text (get_prop d ''papel''))
   \<and> (get_prop d ''foto'' = JUndefined \<or> get_prop d ''foto'' = JNull \<or> is_text (get_prop d ''foto''))
   \<and> (\<forall>e. get_prop d ''email'' = JStr e \<and> e \<noteq> email r \<longrightarrow> e \<notin> email ` set (users db))
   \<longrightarrow> (\<exists>r'. updateUser db now s d
                 = (db\<lparr>users := map (\<lambda>x. if user_id x = user_id r then r' else x) (users db)\<rparr>,
                    Inr (public_view r' @ [(''updatedAt'', JDate (updatedAt r'))]))
              \<and> user_id r' = user_id r \<and> createdAt r' = createdAt r
              \<and> (\<forall>n. get_prop d ''nome'' = JStr n \<and> n \<noteq> [] \<longrightarrow> nome r' = n)
              \<and> (\<not> truthy (get_prop d ''nome'') \<longrightarrow> nome r' = nome r)
              \<and> (\<forall>e. get_prop d ''email'' = JStr e \<and> e \<noteq> [] \<longrightarrow> email r' = e)
              \<and> (\<not> truthy (get_prop d ''email'') \<longrightarrow> email r' = email r)
              \<and> (\<forall>p. get_prop d ''senha'' = JStr p \<and> p \<noteq> [] \<longrightarrow> senha r' = p)
              \<and> (\<not> truthy (get_prop d ''senha'') \<longrightarrow> senha r' = senha r)
              \<and> (\<forall>p. get_prop d ''papel'' = JStr p \<and> p \<noteq> [] \<longrightarrow> papel r' = p)
              \<and> (\<not> truthy (get_prop d ''papel'') \<longrightarrow> papel r' = papel r)
              \<and> (\<forall>p. get_prop d ''foto'' = JStr p \<longrightarrow> foto r' = Some p)
              \<and> (get_prop d ''foto'' = JNull \<longrightarrow> foto r' = None)
              \<and> (get_prop d ''foto'' = JUndefined \<longrightarrow> foto r' = foto r)
              \<and> (dadosAtualizacao d \<noteq> [] \<longrightarrow> updatedAt r' = now)
              \<and> (dadosAtualizacao d = [] \<longrightarrow> r' = r))
       \<and> updateUser db now s [] = (db, Inr (public_view r @ [(''updatedAt'', JDate (updatedAt r))]))"
proof (intro impI conjI)
  assume h: "table_ok db \<and> positive_number s \<and> r \<in> set (users db) \<and> parseInt s = Some (user_id r)
   \<and> (truthy (get_prop d ''nome'') \<longrightarrow> is_text (get_prop d ''nome''))
   \<and> (truthy (get_prop d ''email'') \<longrightarrow> is_text (get_prop d ''email''))
   \<and> (truthy (get_prop d ''senha'') \<longrightarrow> is_text (get_prop d ''senha''))
   \<and> (truthy (get_prop d ''papel'') \<longrightarrow> is_text (get_prop d ''papel''))
   \<and> (get_prop d ''foto'' = JUndefined \<or> get_prop d ''foto'' = JNull \<or> is_text (get_prop d ''foto''))
   \<and> (\<forall>e. get_prop d ''email'' = JStr e \<and> e \<noteq> email r \<longrightarrow> e \<notin> email ` set (users db))"
  then have a: "table_ok db" "\<not> invalid_id s" "r \<in> set (users db)" "parseInt s = Some (user_id r)"
    by (simp_all add: invalid_id_iff)
  from h have u: "updatable d" by (simp add: updatable_def)
  from h have c: "\<forall>e. get_prop d ''email'' = JStr e \<and> e \<noteq> email r \<longrightarrow> e \<notin> email ` set (users db)"
    by simp
  note ok = updateUser_ok[OF a u c, of now]
  let ?r' = "merged_row now d r"
  from h have fields:
    "\<forall>n. get_prop d ''nome'' = JStr n \<and> n \<noteq> [] \<longrightarrow> nome ?r' = n"
    "\<not> truthy (get_prop d ''nome'') \<longrightarrow> nome ?r' = nome r"
    "\<forall>e. get_prop d ''email'' = JStr e \<and> e \<noteq> [] \<longrightarrow> email ?r' = e"
    "\<not> truthy (get_prop d ''email'') \<longrightarrow> email ?r' = email r"
    "\<forall>p. get_prop d ''senha'' = JStr p \<and> p \<noteq> [] \<longrightarrow> senha ?r' = p"
    "\<not> truthy (get_prop d ''senha'') \<longrightarrow> senha ?r' = senha r"
    "\<forall>p. get_prop d ''papel'' = JStr p \<and> p \<noteq> [] \<longrightarrow> papel ?r' = p"
    "\<not> truthy (get_prop d ''papel'') \<longrightarrow> papel ?r' = papel r"
    "\<forall>p. get_prop d ''foto'' = JStr p \<longrightarrow> foto ?r' = Some p"
    "get_prop d ''foto'' = JNull \<longrightarrow> foto ?r' = None"
    "get_prop d ''foto'' = JUndefined \<longrightarrow> foto ?r' = foto r"
    by (simp_all add: merged_row_def text_of_def is_text_def)
  have stamp: "dadosAtualizacao d \<noteq> [] \<longrightarrow> updatedAt ?r' = now"
    "dadosAtualizacao d = [] \<longrightarrow> ?r' = r"
    "user_id ?r' = user_id r" "createdAt ?r' = createdAt r"
    by (simp_all add: merged_row_simps merged_row_unwritten)
  show "(\<exists>r'. updateUser db now s d
                 = (db\<lparr>users := map (\<lambda>x. if user_id x = user_id r then r' else x) (users db)\<rparr>,
                    Inr (public_view r' @ [(''updatedAt'', JDate (updatedAt r'))]))
              \<and> user_id r' = user_id r \<and> createdAt r' = createdAt r
              \<and> (\<forall>n. get_prop d ''nome'' = JStr n \<and> n \<noteq> [] \<longrightarrow> nome r' = n)
              \<and> (\<not> truthy (get_prop d ''nome'') \<longrightarrow> nome r' = nome r)
              \<and> (\<forall>e. get_prop d ''email'' = JStr e \<and> e \<noteq> [] \<longrightarrow> email r' = e)
              \<and> (\<not> truthy (get_prop d ''email'') \<longrightarrow> email r' = email r)
              \<and> (\<forall>p. get_prop d ''senha'' = JStr p \<and> p \<noteq> [] \<longrightarrow> senha r' = p)
              \<and> (\<not> truthy (get_prop d ''senha'') \<longrightarrow> senha r' = senha r)
              \<and> (\<forall>p. get_prop d ''papel'' = JStr p \<and> p \<noteq> [] \<longrightarrow> papel r' = p)
              \<and> (\<not> truthy (get_prop d ''papel'') \<longrightarrow> papel r' = papel r)
              \<and> (\<forall>p. get_prop d ''foto'' = JStr p \<longrightarrow> foto r' = Some p)
              \<and> (get_prop d ''foto'' = JNull \<longrightarrow> foto r' = None)
              \<and> (get_prop d ''foto'' = JUndefined \<longrightarrow> foto r' = foto r)
              \<and> (dadosAtualizacao d \<noteq> [] \<longrightarrow> updatedAt r' = now)
              \<and> (dadosAtualizacao d = [] \<longrightarrow> r' = r))"
    apply (rule exI[of _ ?r'])
    apply (intro conjI)
    using ok fields stamp by (simp_all only:)
  have "\<forall>e. get_prop [] ''email'' = JStr e \<and> e \<noteq> email r \<longrightarrow> e \<notin> email ` set (users db)"
    by (simp add: get_prop_Nil)
  from updateUser_ok[OF a updatable_Nil this, of now]
  have "updateUser db now s []
          = (db\<lparr>users := map (\<lambda>x. if user_id x = user_id r then r else x) (users db)\<rparr>,
             Inr (public_view r @ [(''updatedAt'', JDate (updatedAt r))]))"
    by (simp only: merged_row_unwritten[OF dadosAtualizacao_Nil])
  moreover from a have "map (\<lambda>x. if user_id x = user_id r then r else x) (users db) = users db"
    by (intro map_replace_same) (simp_all add: table_ok_def)
  ultimately show "updateUser db now s [] = (db, Inr (public_view r @ [(''updatedAt'', JDate (updatedAt r))]))" by simp
qed

theorem update_merges_non_empty_fields_witness:
  "updateUser two_users 30 ''2'' []
     = (two_users, Inr (public_view bia @ [(''updatedAt'', JDate 20)]))
   \<and> updateUser two_users 30 ''2'' [(''nome'', JStr ''B''), (''foto'', JNull)]
     = (\<lparr>users = [ana, bia\<lparr>nome := ''B'', foto := None, updatedAt := 30\<rparr>], id_seq = 2\<rparr>,
        Inr [(''id'', JNum 2), (''nome'', JStr ''B''), (''email'', JStr ''bia@x.com''),
             (''foto'', JNull), (''papel'', JStr ''ADMIN''), (''createdAt'', JDate 20),
             (''updatedAt'', JDate 30)])
   \<and> (\<exists>r'. fst (updateUser two_users 30 ''2'' [(''nome'', JStr ''B''), (''foto'', JNull)])
              = two_users\<lparr>users := [ana, r']\<rparr>
            \<and> nome r' = ''B'' \<and> foto r' = None \<and> email r' = email bia \<and> senha r' = senha bia
            \<and> papel r' = papel bia \<and> createdAt r' = createdAt bia \<and> updatedAt r' = 30)"
proof -
  let ?d = "[(''nome'', JStr ''B''), (''foto'', JNull)]"
  have t: "table_ok two_users" by (simp add: table_ok_def sample)
  have v: "positive_number ''2''" "parseInt ''2'' = Some (user_id bia)"
    by (simp_all add: positive_number_def js_eval bia_def)
  have m: "bia \<in> set (users two_users)" by (simp add: two_users_def)
  have g: "get_prop ?d ''nome'' = JStr ''B''" "get_prop ?d ''foto'' = JNull"
    "\<not> truthy (get_prop ?d ''email'')" "\<not> truthy (get_prop ?d ''senha'')"
    "\<not> truthy (get_prop ?d ''papel'')"
    by (simp_all add: get_prop_def)
  have ty: "(truthy (get_prop ?d ''nome'') \<longrightarrow> is_text (get_prop ?d ''nome''))
   \<and> (truthy (get_prop ?d ''email'') \<longrightarrow> is_text (get_prop ?d ''email''))
   \<and> (truthy (get_prop ?d ''senha'') \<longrightarrow> is_text (get_prop ?d ''senha''))
   \<and> (truthy (get_prop ?d ''papel'') \<longrightarrow> is_text (get_prop ?d ''papel''))
   \<and> (get_prop ?d ''foto'' = JUndefined \<or> get_prop ?d ''foto'' = JNull \<or> is_text (get_prop ?d ''foto''))
   \<and> (\<forall>e. get_prop ?d ''email'' = JStr e \<and> e \<noteq> email bia \<longrightarrow> e \<notin> email ` set (users two_users))"
    by (simp add: get_prop_def is_text_def)
  note h = conjI[OF t conjI[OF v(1) conjI[OF m conjI[OF v(2) ty]]]]
  note main = update_merges_non_empty_fields [where db = two_users and s = "''2''" and r = bia
      and now = 30 and d = ?d, rule_format, OF h]
  from main [THEN conjunct2]
  have a: "updateUser two_users 30 ''2'' []
     = (two_users, Inr (public_view bia @ [(''updatedAt'', JDate 20)]))"
    by (simp add: bia_def)
  have b: "updateUser two_users 30 ''2'' ?d
     = (\<lparr>users = [ana, bia\<lparr>nome := ''B'', foto := None, updatedAt := 30\<rparr>], id_seq = 2\<rparr>,
        Inr [(''id'', JNum 2), (''nome'', JStr ''B''), (''email'', JStr ''bia@x.com''),
             (''foto'', JNull), (''papel'', JStr ''ADMIN''), (''createdAt'', JDate 20),
             (''updatedAt'', JDate 30)])"
    by (simp add: js_eval db_eval svc_eval sample)
  have w: "dadosAtualizacao ?d \<noteq> []" by (simp add: dadosAtualizacao_def get_prop_def)
  from main [THEN conjunct1]
  obtain r' where r':
    "updateUser two_users 30 ''2'' ?d
       = (two_users\<lparr>users := map (\<lambda>x. if user_id x = user_id bia then r' else x) (users two_users)\<rparr>,
          Inr (public_view r' @ [(''updatedAt'', JDate (updatedAt r'))]))"
    "createdAt r' = createdAt bia"
    "\<forall>n. get_prop ?d ''nome'' = JStr n \<and> n \<noteq> [] \<longrightarrow> nome r' = n"
    "\<not> truthy (get_prop ?d ''email'') \<longrightarrow> email r' = email bia"
    "\<not> truthy (get_prop ?d ''senha'') \<longrightarrow> senha r' = senha bia"
    "\<not> truthy (get_prop ?d ''papel'') \<longrightarrow> papel r' = papel bia"
    "get_prop ?d ''foto'' = JNull \<longrightarrow> foto r' = None"
    "dadosAtualizacao ?d \<noteq> [] \<longrightarrow> updatedAt r' = 30"
    by (elim exE conjE) (rule that, assumption+)
  from r'(1) have "fst (updateUser two_users 30 ''2'' ?d)
       = two_users\<lparr>users := map (\<lambda>x. if user_id x = user_id bia then r' else x) (users two_users)\<rparr>"
    by (simp only: fst_conv)
  also have "\<dots> = two_users\<lparr>users := [ana, r']\<rparr>"
    by (simp add: two_users_def ana_def bia_def)
  finally have f: "fst (updateUser two_users 30 ''2'' ?d) = two_users\<lparr>users := [ana, r']\<rparr>" .
  from r'(3) g(1) have n: "nome r' = ''B''" by simp
  from r'(4-7) g have o: "email r' = email bia" "senha r' = senha bia" "papel r' = papel bia"
    "foto r' = None" by simp_all
  from r'(8) w have st: "updatedAt r' = 30" by simp
  have c: "\<exists>r'. fst (updateUser two_users 30 ''2'' ?d) = two_users\<lparr>users := [ana, r']\<rparr>
            \<and> nome r' = ''B'' \<and> foto r' = None \<and> email r' = email bia \<and> senha r' = senha bia
            \<and> papel r' = papel bia \<and> createdAt r' = createdAt bia \<and> updatedAt r' = 30"
    using f n o r'(2) st by (intro exI[of _ r'] conjI)
  from a b c show ?thesis by (simp only: simp_thms)
qed

section \<open>The role column\<close>

lemma roles_in_enum_createUser:
  assumes "roles_in_enum db"
    and "get_prop d ''papel'' \<in> {JUndefined, JStr ''ADMIN'', JStr ''PROFESSOR''}"
  shows "roles_in_enum (fst (createUser db now d))"
proof (cases "fst (createUser db now d) = db")
  case True
  with assms show ?thesis by simp
next
  case False
  then have db': "fst (createUser db now d)
              = db\<lparr>users := users db @ [inserted_row db now d], id_seq := id_seq db + 1\<rparr>"
    by (auto simp: createUser_result split: if_splits)
  from assms(2) have "papel (inserted_row db now d) = ''ADMIN'' \<or> papel (inserted_row db now d) = ''PROFESSOR''"
    by (auto simp: inserted_row_def text_of_def)
  with assms(1) show ?thesis unfolding db' by (simp add: roles_in_enum_def)
qed

lemma roles_in_enum_updateUser:
  assumes "roles_in_enum db"
    and "get_prop d ''papel'' \<in> {JUndefined, JStr ''ADMIN'', JStr ''PROFESSOR''}"
  shows "roles_in_enum (fst (updateUser db now s d))"
proof (cases "fst (updateUser db now s d) = db")
  case True
  with assms show ?thesis by simp
next
  case False
  then obtain i r where i: "id_key (parseInt s) = Some i"
    and r: "find (\<lambda>r. user_id r = i) (users db) = Some r"
    by (auto simp: updateUser_result split: if_splits option.splits)
  from False i r have db': "fst (updateUser db now s d)
              = db\<lparr>users := map (\<lambda>x. if user_id x = i then merged_row now d r else x) (users db)\<rparr>"
    by (auto simp: updateUser_result prisma_update_dados split: if_splits)
  from r have "r \<in> set (users db)" by (auto simp: find_Some_iff)
  with assms(1) have "papel r = ''ADMIN'' \<or> papel r = ''PROFESSOR''"
    by (simp add: roles_in_enum_def list_all_iff)
  with assms(2) have "papel (merged_row now d r) = ''ADMIN'' \<or> papel (merged_row now d r) = ''PROFESSOR''"
    by (auto simp: merged_row_def text_of_def)
  with assms(1) show ?thesis unfolding db'
    by (auto simp: roles_in_enum_def list_all_iff)
qed

text \<open>
  C8 as stated fails: creating a user with role \<^verbatim>\<open>ALUNO\<close> succeeds and stores that role, and so
  does updating one (the column \<^verbatim>\<open>papel\<close> of the migration is plain \<^verbatim>\<open>TEXT\<close>).
\<close>

theorem role_outside_enumeration_counterexample:
  "createUser empty_db 5
     [(''nome'', JStr ''A''), (''email'', JStr ''a@x.com''), (''senha'', JStr ''secret1''),
      (''papel'', JStr ''ALUNO'')]
   = (\<lparr>users = [\<lparr>user_id = 1, nome = ''A'', email = ''a@x.com'', senha = ''secret1'',
                   foto = None, papel = ''ALUNO'', createdAt = 5, updatedAt = 5\<rparr>],
       id_seq = 1\<rparr>,
      Inr [(''id'', JNum 1), (''nome'', JStr ''A''), (''email'', JStr ''a@x.com''),
           (''foto'', JNull), (''papel'', JStr ''ALUNO''), (''createdAt'', JDate 5)])
   \<and> \<not> roles_in_enum (fst (createUser empty_db 5
     [(''nome'', JStr ''A''), (''email'', JStr ''a@x.com''), (''senha'', JStr ''secret1''),
      (''papel'', JStr ''ALUNO'')]))
   \<and> \<not> roles_in_enum (fst (updateUser two_users 30 ''1'' [(''papel'', JStr ''ALUNO'')]))"
  by (simp add: js_eval db_eval svc_eval sample roles_in_enum_def)

text \<open>
  C8, as amended. The role is free text that the service stores as given and never compares
  with \<^verbatim>\<open>ADMIN\<close> and \<^verbatim>\<open>PROFESSOR\<close>. A \<^verbatim>\<open>createUser\<close> whose payload has non-empty text for
  \<^verbatim>\<open>nome\<close>, \<^verbatim>\<open>email\<close> and \<^verbatim>\<open>senha\<close>, an email held by no row, and a \<^verbatim>\<open>papel\<close> and a \<^verbatim>\<open>foto\<close>
  that are each absent, falsy or text, succeeds whatever the text of the role is: the new row
  has the role given when it is non-empty text, inside the enumeration or not, and
  \<^verbatim>\<open>PROFESSOR\<close> when the role is absent or falsy. An \<^verbatim>\<open>updateUser\<close> of an existing row, with a
  payload typed in the same way and no email conflict, succeeds whatever the text of the role
  is: the row's role is replaced by the text provided when it is non-empty, inside the
  enumeration or not, and kept when the role is absent or falsy. So the roles of the table
  stay within the two values across a \<^verbatim>\<open>createUser\<close> or an \<^verbatim>\<open>updateUser\<close> only under a condition
  on the caller: they were within them before and the payload's role is omitted or one of
  the two.
\<close>

theorem role_stored_as_given:
  "(get_prop d ''nome'' = JStr n \<and> n \<noteq> [] \<and> get_prop d ''email'' = JStr e \<and> e \<noteq> []
     \<and> get_prop d ''senha'' = JStr w \<and> w \<noteq> []
     \<and> (truthy (get_prop d ''papel'') \<longrightarrow> is_text (get_prop d ''papel''))
     \<and> (truthy (get_prop d ''foto'') \<longrightarrow> is_text (get_prop d ''foto''))
     \<and> e \<notin> email ` set (users db) \<and> id_seq db < 2147483647
    \<longrightarrow> (\<exists>row. createUser db now d
                 = (db\<lparr>users := users db @ [row], id_seq := id_seq db + 1\<rparr>, Inr (public_view row))
               \<and> (\<forall>p. get_prop d ''papel'' = JStr p \<and> p \<noteq> [] \<longrightarrow> papel row = p)
               \<and> (\<not> truthy (get_prop d ''papel'') \<longrightarrow> papel row = ''PROFESSOR'')))
   \<and> (table_ok db \<and> positive_number s \<and> r \<in> set (users db) \<and> parseInt s = Some (user_id r)
     \<and> (truthy (get_prop d ''nome'') \<longrightarrow> is_text (get_prop d ''nome''))
     \<and> (truthy (get_prop d ''email'') \<longrightarrow> is_text (get_prop d ''email''))
     \<and> (truthy (get_prop d ''senha'') \<longrightarrow> is_text (get_prop d ''senha''))
     \<and> (truthy (get_prop d ''papel'') \<longrightarrow> is_text (get_prop d ''papel''))
     \<and> (get_prop d ''foto'' = JUndefined \<or> get_prop d ''foto'' = JNull \<or> is_text (get_prop d ''foto''))
     \<and> (\<forall>a. get_prop d ''email'' = JStr a \<and> a \<noteq> email r \<longrightarrow> a \<notin> email ` set (users db))
    \<longrightarrow> (\<exists>r'. updateUser db now s d
                = (db\<lparr>users := map (\<lambda>x. if user_id x = user_id r then r' else x) (users db)\<rparr>,
                   Inr (public_view r' @ [(''updatedAt'', JDate (updatedAt r'))]))
              \<and> (\<forall>p. get_prop d ''papel'' = JStr p \<and> p \<noteq> [] \<longrightarrow> papel r' = p)
              \<and> (\<not> truthy (get_prop d ''papel'') \<longrightarrow> papel r' = papel r)))
   \<and> (roles_in_enum db \<and> get_prop d ''papel'' \<in> {JUndefined, JStr ''ADMIN'', JStr ''PROFESSOR''}
    \<longrightarrow> roles_in_enum (fst (createUser db now d)) \<and> roles_in_enum (fst (updateUser db now s d)))"
proof (intro conjI impI)
  assume h: "get_prop d ''nome'' = JStr n \<and> n \<noteq> [] \<and> get_prop d ''email'' = JStr e \<and> e \<noteq> []
     \<and> get_prop d ''senha'' = JStr w \<and> w \<noteq> []
     \<and> (truthy (get_prop d ''papel'') \<longrightarrow> is_text (get_prop d ''papel''))
     \<and> (truthy (get_prop d ''foto'') \<longrightarrow> is_text (get_prop d ''foto''))
     \<and> e \<notin> email ` set (users db) \<and> id_seq db < 2147483647"
  let ?row = "inserted_row db now d"
  from h have "creatable d" by (simp add: creatable_def is_text_def)
  with h have c: "createUser db now d
       = (db\<lparr>users := users db @ [?row], id_seq := id_seq db + 1\<rparr>, Inr (public_view ?row))"
    by (intro createUser_ok) (simp_all add: text_of_def)
  have p: "\<forall>p. get_prop d ''papel'' = JStr p \<and> p \<noteq> [] \<longrightarrow> papel ?row = p"
    "\<not> truthy (get_prop d ''papel'') \<longrightarrow> papel ?row = ''PROFESSOR''"
    by (simp_all add: inserted_row_def text_of_def)
  show "(\<exists>row. createUser db now d
                 = (db\<lparr>users := users db @ [row], id_seq := id_seq db + 1\<rparr>, Inr (public_view row))
               \<and> (\<forall>p. get_prop d ''papel'' = JStr p \<and> p \<noteq> [] \<longrightarrow> papel row = p)
               \<and> (\<not> truthy (get_prop d ''papel'') \<longrightarrow> papel row = ''PROFESSOR''))"
    apply (rule exI[of _ ?row])
    apply (intro conjI)
    using c p by (simp_all only:)
next
  assume h: "table_ok db \<and> positive_number s \<and> r \<in> set (users db) \<and> parseInt s = Some (user_id r)
     \<and> (truthy (get_prop d ''nome'') \<longrightarrow> is_text (get_prop d ''nome''))
     \<and> (truthy (get_prop d ''email'') \<longrightarrow> is_text (get_prop d ''email''))
     \<and> (truthy (get_prop d ''senha'') \<longrightarrow> is_text (get_prop d ''senha''))
     \<and> (truthy (get_prop d ''papel'') \<longrightarrow> is_text (get_prop d ''papel''))
     \<and> (get_prop d ''foto'' = JUndefined \<or> get_prop d ''foto'' = JNull \<or> is_text (get_prop d ''foto''))
     \<and> (\<forall>a. get_prop d ''email'' = JStr a \<and> a \<noteq> email r \<longrightarrow> a \<notin> email ` set (users db))"
  then have a: "table_ok db" "\<not> invalid_id s" "r \<in> set (users db)" "parseInt s = Some (user_id r)"
    by (simp_all add: invalid_id_iff)
  from h have u: "updatable d" by (simp add: updatable_def)
  from h have c: "\<forall>a. get_prop d ''email'' = JStr a \<and> a \<noteq> email r \<longrightarrow> a \<notin> email ` set (users db)"
    by simp
  note ok = updateUser_ok[OF a u c, of now]
  let ?r' = "merged_row now d r"
  have p: "\<forall>p. get_prop d ''papel'' = JStr p \<and> p \<noteq> [] \<longrightarrow> papel ?r' = p"
    "\<not> truthy (get_prop d ''papel'') \<longrightarrow> papel ?r' = papel r"
    by (simp_all add: merged_row_def text_of_def)
  show "(\<exists>r'. updateUser db now s d
                = (db\<lparr>users := map (\<lambda>x. if user_id x = user_id r then r' else x) (users db)\<rparr>,
                   Inr (public_view r' @ [(''updatedAt'', JDate (updatedAt r'))]))
              \<and> (\<forall>p. get_prop d ''papel'' = JStr p \<and> p \<noteq> [] \<longrightarrow> papel r' = p)
              \<and> (\<not> truthy (get_prop d ''papel'') \<longrightarrow> papel r' = papel r))"
    apply (rule exI[of _ ?r'])
    apply (intro conjI)
    using ok p by (simp_all only:)
next
  assume h: "roles_in_enum db \<and> get_prop d ''papel'' \<in> {JUndefined, JStr ''ADMIN'', JStr ''PROFESSOR''}"
  then show "roles_in_enum (fst (createUser db now d))"
    by (intro roles_in_enum_createUser) simp_all
  from h show "roles_in_enum (fst (updateUser db now s d))"
    by (intro roles_in_enum_updateUser) simp_all
qed

theorem role_stored_as_given_witness:
  "(\<exists>row. createUser empty_db 5
             [(''nome'', JStr ''A''), (''email'', JStr ''a@x.com''), (''senha'', JStr ''secret1''),
              (''papel'', JStr ''ALUNO'')]
           = (empty_db\<lparr>users := users empty_db @ [row], id_seq := id_seq empty_db + 1\<rparr>,
              Inr (public_view row))
         \<and> papel row = ''ALUNO'')
   \<and> (\<exists>r'. updateUser two_users 30 ''1'' [(''papel'', JStr ''ALUNO'')]
           = (two_users\<lparr>users := map (\<lambda>x. if user_id x = user_id ana then r' else x) (users two_users)\<rparr>,
              Inr (public_view r' @ [(''updatedAt'', JDate (updatedAt r'))]))
         \<and> papel r' = ''ALUNO'')
   \<and> roles_in_enum two_users
   \<and> roles_in_enum (fst (createUser two_users 30
        [(''nome'', JStr ''C''), (''email'', JStr ''c@x.com''), (''senha'', JStr ''pw''),
         (''papel'', JStr ''ADMIN'')]))
   \<and> roles_in_enum (fst (updateUser two_users 30 ''1'' [(''papel'', JStr ''ADMIN'')]))"
proof -
  let ?c = "[(''nome'', JStr ''A''), (''email'', JStr ''a@x.com''), (''senha'', JStr ''secret1''),
              (''papel'', JStr ''ALUNO'')]"
  let ?u = "[(''papel'', JStr ''ALUNO'')]"
  let ?d = "[(''nome'', JStr ''C''), (''email'', JStr ''c@x.com''), (''senha'', JStr ''pw''),
         (''papel'', JStr ''ADMIN'')]"
  note main = role_stored_as_given
  have hc: "get_prop ?c ''nome'' = JStr ''A'' \<and> ''A'' \<noteq> [] \<and> get_prop ?c ''email'' = JStr ''a@x.com''
     \<and> ''a@x.com'' \<noteq> []
     \<and> get_prop ?c ''senha'' = JStr ''secret1'' \<and> ''secret1'' \<noteq> []
     \<and> (truthy (get_prop ?c ''papel'') \<longrightarrow> is_text (get_prop ?c ''papel''))
     \<and> (truthy (get_prop ?c ''foto'') \<longrightarrow> is_text (get_prop ?c ''foto''))
     \<and> ''a@x.com'' \<notin> email ` set (users empty_db) \<and> id_seq empty_db < 2147483647"
    by (simp add: get_prop_def is_text_def empty_db_def)
  from main [where db = empty_db and d = ?c and n = "''A''" and e = "''a@x.com''" and w = "''secret1''"
               and now = 5, THEN conjunct1, rule_format, OF hc]
  obtain row where row:
    "createUser empty_db 5 ?c
       = (empty_db\<lparr>users := users empty_db @ [row], id_seq := id_seq empty_db + 1\<rparr>,
          Inr (public_view row))"
    "\<forall>p. get_prop ?c ''papel'' = JStr p \<and> p \<noteq> [] \<longrightarrow> papel row = p"
    by (elim exE conjE) (rule that, assumption+)
  from row(2) have "papel row = ''ALUNO''" by (simp add: get_prop_def)
  with row(1) have a: "\<exists>row. createUser empty_db 5 ?c
           = (empty_db\<lparr>users := users empty_db @ [row], id_seq := id_seq empty_db + 1\<rparr>,
              Inr (public_view row))
         \<and> papel row = ''ALUNO''"
    by (intro exI[of _ row] conjI)
  have t: "table_ok two_users" by (simp add: table_ok_def sample)
  have v: "positive_number ''1''" "parseInt ''1'' = Some (user_id ana)"
    by (simp_all add: positive_number_def js_eval ana_def)
  have m: "ana \<in> set (users two_users)" by (simp add: two_users_def)
  have ty: "(truthy (get_prop ?u ''nome'') \<longrightarrow> is_text (get_prop ?u ''nome''))
     \<and> (truthy (get_prop ?u ''email'') \<longrightarrow> is_text (get_prop ?u ''email''))
     \<and> (truthy (get_prop ?u ''senha'') \<longrightarrow> is_text (get_prop ?u ''senha''))
     \<and> (truthy (get_prop ?u ''papel'') \<longrightarrow> is_text (get_prop ?u ''papel''))
     \<and> (get_prop ?u ''foto'' = JUndefined \<or> get_prop ?u ''foto'' = JNull \<or> is_text (get_prop ?u ''foto''))
     \<and> (\<forall>a. get_prop ?u ''email'' = JStr a \<and> a \<noteq> email ana \<longrightarrow> a \<notin> email ` set (users two_users))"
    by (simp add: get_prop_def is_text_def)
  note hu = conjI[OF t conjI[OF v(1) conjI[OF m conjI[OF v(2) ty]]]]
  from main [where db = two_users and d = ?u and s = "''1''" and r = ana and now = 30,
             THEN conjunct2, THEN conjunct1, rule_format, OF hu]
  obtain r' where r':
    "updateUser two_users 30 ''1'' ?u
       = (two_users\<lparr>users := map (\<lambda>x. if user_id x = user_id ana then r' else x) (users two_users)\<rparr>,
          Inr (public_view r' @ [(''updatedAt'', JDate (updatedAt r'))]))"
    "\<forall>p. get_prop ?u ''papel'' = JStr p \<and> p \<noteq> [] \<longrightarrow> papel r' = p"
    by (elim exE conjE) (rule that, assumption+)
  from r'(2) have "papel r' = ''ALUNO''" by (simp add: get_prop_def)
  with r'(1) have b: "\<exists>r'. updateUser two_users 30 ''1'' ?u
           = (two_users\<lparr>users := map (\<lambda>x. if user_id x = user_id ana then r' else x) (users two_users)\<rparr>,
              Inr (public_view r' @ [(''updatedAt'', JDate (updatedAt r'))]))
         \<and> papel r' = ''ALUNO''"
    by (intro exI[of _ r'] conjI)
  have re: "roles_in_enum two_users" by (simp add: roles_in_enum_def sample)
  have p: "get_prop ?d ''papel'' \<in> {JUndefined, JStr ''ADMIN'', JStr ''PROFESSOR''}"
    and q: "get_prop [(''papel'', JStr ''ADMIN'')] ''papel'' \<in> {JUndefined, JStr ''ADMIN'', JStr ''PROFESSOR''}"
    by (simp_all add: get_prop_def)
  from main [where db = two_users and d = ?d and now = 30, THEN conjunct2, THEN conjunct2,
             rule_format, OF conjI[OF re p], THEN conjunct1]
  have c: "roles_in_enum (fst (createUser two_users 30 ?d))" .
  from main [where db = two_users and d = "[(''papel'', JStr ''ADMIN'')]" and now = 30 and s = "''1''",
             THEN conjunct2, THEN conjunct2, rule_format, OF conjI[OF re q], THEN conjunct2]
  have d: "roles_in_enum (fst (updateUser two_users 30 ''1'' [(''papel'', JStr ''ADMIN'')]))" .
  from a b re c d show ?thesis by (simp only: simp_thms)
qed

end
